theory Spec2Isabelle
  imports Complex_Main "HOL-Library.Log_Nat"
begin

section \<open>Floating-point numbers\<close>

text \<open>
  Python's \<open>float\<close> and the \<open>Float\<close> columns are IEEE 754 binary64 numbers. A
  finite double is held as the real number it denotes; every arithmetic operation of
  the source yields the exact result rounded to the nearest double, a tie going to the
  even significand.

  \<open>rne\<close> rounds a real to the nearest integer, a tie to the even one. \<open>ulp x\<close> is the
  spacing of the doubles around \<open>x\<close>: \<open>2 ^ (e - 52)\<close> where \<open>2 ^ e \<le> \<bar>x\<bar> < 2 ^ (e + 1)\<close>,
  and \<open>2 ^ (- 1074)\<close> in the subnormal range (\<open>bitlen n\<close> is the number of binary
  digits of \<open>n\<close>). \<open>fl x\<close> is the double nearest to \<open>x\<close>; a literal of the source such
  as \<open>0.8\<close> denotes \<open>fl 0.8\<close>. The overflow of a result of magnitude \<open>2 ^ 1024\<close> or
  more to an infinity has no counterpart here: the development is about finite doubles.
\<close>

definition rne :: "real \<Rightarrow> int" where
  "rne x = (let n = \<lfloor>x\<rfloor>; r = x - of_int n
            in if r < 1 / 2 then n else if 1 / 2 < r then n + 1
               else if even n then n else n + 1)"

definition ulp :: "real \<Rightarrow> real" where
  "ulp x = 2 ^ nat (bitlen \<lfloor>\<bar>x\<bar> * 2 ^ 1074\<rfloor> - 53) / 2 ^ 1074"

definition fl :: "real \<Rightarrow> real" where
  "fl x = of_int (rne (x / ulp x)) * ulp x"

section \<open>Data model (app/models.py)\<close>

text \<open>
  Money columns are SQLAlchemy \<open>Float\<close>: a balance, a limit or an amount is a
  double, held as the real number it denotes, and every operation on it rounds with
  \<open>fl\<close>. Primary keys are naturals, \<open>datetime\<close> values are microseconds since the
  epoch. A column declared \<open>nullable=True\<close> is an option; the columns that every writer
  of the repository fills (or that carry a default) hold a plain value.
\<close>

datatype AccountType = SAVINGS | CURRENT | FD

datatype TransactionType = TRANSFER | DEPOSIT | WITHDRAWAL

record Account =
  acc_id :: nat
  account_number :: string
  acc_user_id :: nat
  account_type :: AccountType
  balance :: real
  is_active :: bool
  daily_limit :: real

text \<open>
  The reason strings of the fraud checks are f-strings over floats. Each constructor
  stands for one message template of the source and carries the interpolated number:
  \<^item> \<open>Exceeds_daily_limit l\<close>: \<^verbatim>\<open>f"Exceeds daily limit of Rs{account.daily_limit}"\<close>
  \<^item> \<open>Multiple_large\<close>: \<^verbatim>\<open>"Multiple large transactions in last hour"\<close>
  \<^item> \<open>Large_withdrawal\<close>: \<^verbatim>\<open>"Large withdrawal >80% of balance"\<close>
  \<^item> \<open>Empty_reason\<close>: \<^verbatim>\<open>""\<close>
  \<^item> \<open>ML_exceeds_limit s\<close>, \<open>ML_large_withdrawal s\<close>, \<open>ML_unusual s\<close>,
    \<open>ML_normal s\<close>: the four messages of \<open>FraudDetector.predict\<close> with score \<open>s\<close>
  \<^item> \<open>Approved\<close>: \<^verbatim>\<open>"Transaction approved"\<close>
\<close>

datatype reason =
    Exceeds_daily_limit real
  | Multiple_large
  | Large_withdrawal
  | Empty_reason
  | ML_exceeds_limit real
  | ML_large_withdrawal real
  | ML_unusual real
  | ML_normal real
  | Approved

record Transaction =
  txn_id :: nat
  transaction_type :: TransactionType
  from_account_id :: "nat option"
  to_account_id :: "nat option"
  amount :: real
  balance_after :: "real option"
  description :: "string option"
  is_flagged :: bool
  flag_reason :: "reason option"
  timestamp :: int

text \<open>
  The detail text of the audit entry of a transfer is the f-string
  \<^verbatim>\<open>f"Rs{transfer.amount} from {from_account_number} to {to_account_number}"\<close>;
  \<open>Transfer_details\<close> carries its three interpolated values.
\<close>

datatype details = Transfer_details real string string | Text string

record AuditLog =
  log_id :: nat
  log_user_id :: nat
  action :: string
  log_details :: "details option"
  log_timestamp :: int

text \<open>The committed content of the three tables, each in insertion order.\<close>

record database =
  accounts :: "Account list"
  transactions :: "Transaction list"
  audit_logs :: "AuditLog list"

section \<open>Requests and errors (app/complete_main.py)\<close>

record TransferRequest =
  from_account_number :: string
  to_account_number :: string
  req_amount :: real
  req_description :: "string option"

text \<open>
  \<open>RequestValidationError\<close> is the rejection of a request body by the schema
  (\<^verbatim>\<open>amount: float = Field(..., gt=0)\<close>); \<open>HTTPException code detail\<close> is what the
  endpoint raises itself.
\<close>

datatype api_error = RequestValidationError | HTTPException nat string

section \<open>Queries\<close>

text \<open>
  \<^verbatim>\<open>db.query(M).filter(P).first()\<close> yields the first row that satisfies \<open>P\<close>. The
  session's identity map hands out one object per row, so a row is referred to by
  its position in the table: two queries that find the same row yield the same object.
\<close>

fun first_index :: "('a \<Rightarrow> bool) \<Rightarrow> 'a list \<Rightarrow> nat option" where
  "first_index P [] = None"
| "first_index P (x # xs) = (if P x then Some 0 else map_option Suc (first_index P xs))"

text \<open>The next value of an autoincremented integer primary key.\<close>

definition next_id :: "nat list \<Rightarrow> nat" where
  "next_id ids = Suc (fold max ids 0)"

definition timedelta_hours :: "int \<Rightarrow> int" where
  "timedelta_hours h = h * 3600000000"

definition timedelta_days :: "int \<Rightarrow> int" where
  "timedelta_days d = d * 86400000000"

section \<open>Rule-based fraud check (complete_main.check_fraud)\<close>

definition recent_large :: "int \<Rightarrow> Account \<Rightarrow> database \<Rightarrow> nat" where
  "recent_large now account db =
     (let one_hour_ago = now - timedelta_hours 1
      in length (filter (\<lambda>t. from_account_id t = Some (acc_id account)
                             \<and> timestamp t \<ge> one_hour_ago
                             \<and> amount t > 10000) (transactions db)))"

definition check_fraud :: "int \<Rightarrow> real \<Rightarrow> Account \<Rightarrow> database \<Rightarrow> bool \<times> reason" where
  "check_fraud now amt account db =
     (if amt > daily_limit account then (True, Exceeds_daily_limit (daily_limit account))
      else if recent_large now account db \<ge> 3 then (True, Multiple_large)
      else if amt > fl (balance account * fl 0.8) \<and> amt > 50000
      then (True, Large_withdrawal)
      else (False, Empty_reason))"

section \<open>Audit log (complete_main.create_audit_log)\<close>

text \<open>\<^verbatim>\<open>db.add(log); db.commit()\<close>: one row appended, in a commit of its own.\<close>

definition create_audit_log ::
  "int \<Rightarrow> database \<Rightarrow> nat \<Rightarrow> string \<Rightarrow> details option \<Rightarrow> database" where
  "create_audit_log now db uid act det =
     db\<lparr>audit_logs := audit_logs db @
          [\<lparr>log_id = next_id (map log_id (audit_logs db)), log_user_id = uid,
            action = act, log_details = det, log_timestamp = now\<rparr>]\<rparr>"

section \<open>The transfer endpoint (complete_main.transfer)\<close>

definition source_filter :: "nat \<Rightarrow> TransferRequest \<Rightarrow> Account \<Rightarrow> bool" where
  "source_filter uid req a \<longleftrightarrow>
     account_number a = from_account_number req \<and> acc_user_id a = uid"

definition dest_filter :: "TransferRequest \<Rightarrow> Account \<Rightarrow> bool" where
  "dest_filter req a \<longleftrightarrow> account_number a = to_account_number req"

text \<open>
  The two balance assignments of the source, on the rows at positions \<open>i\<close> (source) and
  \<open>j\<close> (destination); each is one floating-point operation. The second assignment
  reads the table the first one wrote, as the source does when both names denote the
  same object.
\<close>

definition execute_transfer :: "nat \<Rightarrow> nat \<Rightarrow> real \<Rightarrow> Account list \<Rightarrow> Account list" where
  "execute_transfer i j amt accs =
     (let accs1 = accs[i := (accs ! i)\<lparr>balance := fl (balance (accs ! i) - amt)\<rparr>]
      in accs1[j := (accs1 ! j)\<lparr>balance := fl (balance (accs1 ! j) + amt)\<rparr>])"

text \<open>
  The \<^verbatim>\<open>models.Transaction(...)\<close> row of a transfer, built from the two account objects
  as they are after the balance assignments, and from the verdict of the fraud check.
\<close>

definition new_transaction ::
  "int \<Rightarrow> TransferRequest \<Rightarrow> database \<Rightarrow> Account \<Rightarrow> Account \<Rightarrow> bool \<times> reason \<Rightarrow> Transaction" where
  "new_transaction now req db from_acc to_acc verdict =
     \<lparr>txn_id = next_id (map txn_id (transactions db)),
      transaction_type = TRANSFER,
      from_account_id = Some (acc_id from_acc),
      to_account_id = Some (acc_id to_acc),
      amount = req_amount req,
      balance_after = Some (balance from_acc),
      description = req_description req,
      is_flagged = fst verdict,
      flag_reason = (if fst verdict then Some (snd verdict) else None),
      timestamp = now\<rparr>"

text \<open>
  Lines 315 to 350: from the lookups to the first \<^verbatim>\<open>db.commit()\<close>, which makes the
  two balances and the new transaction row durable together. The result is the error
  raised or the transaction returned, and the committed database.
\<close>

definition transfer_commit ::
  "int \<Rightarrow> nat \<Rightarrow> TransferRequest \<Rightarrow> database \<Rightarrow> (api_error + Transaction) \<times> database" where
  "transfer_commit now uid req db =
     (if \<not> req_amount req > 0 then (Inl RequestValidationError, db)
      else case first_index (source_filter uid req) (accounts db) of
        None \<Rightarrow> (Inl (HTTPException 404 ''Source account not found or inactive''), db)
      | Some i \<Rightarrow>
          if \<not> is_active (accounts db ! i)
          then (Inl (HTTPException 404 ''Source account not found or inactive''), db)
          else (case first_index (dest_filter req) (accounts db) of
            None \<Rightarrow> (Inl (HTTPException 404 ''Destination account not found or inactive''), db)
          | Some j \<Rightarrow>
              if \<not> is_active (accounts db ! j)
              then (Inl (HTTPException 404 ''Destination account not found or inactive''), db)
              else if balance (accounts db ! i) < req_amount req
              then (Inl (HTTPException 400 ''Insufficient funds''), db)
              else
                let verdict = check_fraud now (req_amount req) (accounts db ! i) db;
                    accs = execute_transfer i j (req_amount req) (accounts db);
                    t = new_transaction now req db (accs ! i) (accs ! j) verdict
                in (Inr t, db\<lparr>accounts := accs, transactions := transactions db @ [t]\<rparr>)))"

text \<open>The whole endpoint: the committed transfer, then the audit entry in its own commit.\<close>

definition transfer ::
  "int \<Rightarrow> nat \<Rightarrow> TransferRequest \<Rightarrow> database \<Rightarrow> (api_error + Transaction) \<times> database" where
  "transfer now uid req db =
     (case transfer_commit now uid req db of
        (Inl e, db1) \<Rightarrow> (Inl e, db1)
      | (Inr t, db1) \<Rightarrow>
          (Inr t, create_audit_log now db1 uid ''TRANSFER''
                    (Some (Transfer_details (req_amount req)
                             (from_account_number req) (to_account_number req)))))"

section \<open>Anomaly scorer (app/fraud_detection.py)\<close>

text \<open>
  The exceptions the scorer can raise: the division by a zero daily limit, the use of
  a forest that was never fitted, and any other exception of the library.
\<close>

datatype py_exception = ZeroDivisionError | NotFittedError | Exception string

text \<open>
  \<open>sklearn.ensemble.IsolationForest\<close> is not part of the repository. A fitted forest is
  represented by the matrix it was fitted on (its parameters and \<open>random_state\<close> are
  constants of the source); what \<open>predict\<close> and \<open>score_samples\<close> answer for a fitted
  forest and one feature vector is a parameter of the model, and either may raise.
\<close>

record sklearn =
  forest_predict :: "real list list \<Rightarrow> real list \<Rightarrow> py_exception + int"
  score_samples :: "real list list \<Rightarrow> real list \<Rightarrow> py_exception + real"

text \<open>\<open>self.model\<close> and \<open>self.is_trained\<close>; \<open>fitted = None\<close> is the forest before \<open>fit\<close>.\<close>

record FraudDetector =
  fitted :: "real list list option"
  is_trained :: bool

definition fraud_detector :: FraudDetector where
  "fraud_detector = \<lparr>fitted = None, is_trained = False\<rparr>"

text \<open>\<open>datetime.hour\<close> and \<open>datetime.weekday()\<close> (Monday is 0; the epoch was a Thursday).\<close>

definition hour :: "int \<Rightarrow> int" where
  "hour t = (t div 3600000000) mod 24"

definition weekday :: "int \<Rightarrow> int" where
  "weekday t = (t div 86400000000 + 3) mod 7"

text \<open>
  The builtin \<open>sum\<close> over floats, started at \<open>0\<close>: the running total is rounded after
  every addition. (From CPython 3.12 on the builtin carries a compensation term, which
  can change the last bit of the total; the total enters one feature of the scorer.)
\<close>

definition py_sum :: "real list \<Rightarrow> real" where
  "py_sum xs = foldl (\<lambda>total x. fl (total + x)) 0 xs"

definition extract_features ::
  "int \<Rightarrow> real \<Rightarrow> Account \<Rightarrow> database \<Rightarrow> py_exception + real list" where
  "extract_features now amt account db =
     (let one_month_ago = now - timedelta_days 30;
          recent_transactions =
            filter (\<lambda>t. from_account_id t = Some (acc_id account) \<and> timestamp t \<ge> one_month_ago)
              (transactions db);
          feature_amount = amt;
          feature_balance_ratio =
            (if balance account > 0 then fl (amt / balance account) else 0);
          avg_amount = (if recent_transactions \<noteq> []
                        then fl (py_sum (map amount recent_transactions)
                                   / real (length recent_transactions))
                        else 0);
          feature_avg_diff = fl (amt - avg_amount);
          one_hour_ago = now - timedelta_hours 1;
          recent_hour_count =
            length (filter (\<lambda>t. from_account_id t = Some (acc_id account)
                                 \<and> timestamp t \<ge> one_hour_ago) (transactions db));
          feature_frequency = real recent_hour_count;
          feature_time = real_of_int (hour now);
          feature_day = real_of_int (weekday now)
      in if daily_limit account = 0 then Inl ZeroDivisionError
         else Inr [feature_amount, feature_balance_ratio, feature_avg_diff, feature_frequency,
                   feature_time, feature_day, fl (amt / daily_limit account)])"

text \<open>The feature row of one historical transaction, where its last entry is defined.\<close>

definition row_values :: "Account \<Rightarrow> Transaction \<Rightarrow> real list" where
  "row_values account t =
     [amount t,
      (if balance account > 0 then fl (amount t / balance account) else 0),
      amount t,
      1,
      real_of_int (hour (timestamp t)),
      real_of_int (weekday (timestamp t)),
      fl (amount t / daily_limit account)]"

definition training_row :: "Account \<Rightarrow> Transaction \<Rightarrow> py_exception + real list" where
  "training_row account t =
     (if daily_limit account = 0 then Inl ZeroDivisionError else Inr (row_values account t))"

text \<open>The inner loop over the transactions of one account; the first exception ends it.\<close>

fun account_rows :: "Account \<Rightarrow> Transaction list \<Rightarrow> py_exception + real list list" where
  "account_rows account [] = Inr []"
| "account_rows account (t # ts) =
     (case training_row account t of
        Inl e \<Rightarrow> Inl e
      | Inr r \<Rightarrow> (case account_rows account ts of Inl e \<Rightarrow> Inl e | Inr rs \<Rightarrow> Inr (r # rs)))"

text \<open>
  \<^verbatim>\<open>db.query(Transaction).filter(from_account_id == account.id).limit(100).all()\<close>:
  the query has no ordering, so it yields the first 100 matching rows of the table.
\<close>

definition account_transactions :: "Account \<Rightarrow> database \<Rightarrow> Transaction list" where
  "account_transactions account db =
     take 100 (filter (\<lambda>t. from_account_id t = Some (acc_id account)) (transactions db))"

text \<open>The outer loop over all accounts.\<close>

fun training_data :: "Account list \<Rightarrow> database \<Rightarrow> py_exception + real list list" where
  "training_data [] db = Inr []"
| "training_data (account # rest) db =
     (case account_rows account (account_transactions account db) of
        Inl e \<Rightarrow> Inl e
      | Inr rs \<Rightarrow> (case training_data rest db of Inl e \<Rightarrow> Inl e | Inr others \<Rightarrow> Inr (rs @ others)))"

text \<open>
  \<open>_generate_synthetic_data\<close>: 100 rows; \<open>rng k\<close> is the row of seven random draws of
  iteration \<open>k\<close>.
\<close>

definition generate_synthetic_data :: "(nat \<Rightarrow> real list) \<Rightarrow> real list list" where
  "generate_synthetic_data rng = map rng [0..<100]"

definition train_on_historical_data ::
  "(nat \<Rightarrow> real list) \<Rightarrow> database \<Rightarrow> FraudDetector \<Rightarrow> (py_exception + unit) \<times> FraudDetector" where
  "train_on_historical_data rng db det =
     (if accounts db = [] then (Inr (), det)
      else case training_data (accounts db) db of
        Inl e \<Rightarrow> (Inl e, det)
      | Inr rows \<Rightarrow>
          let X_train = (if length rows < 10 then generate_synthetic_data rng else rows)
          in (Inr (), det\<lparr>fitted := Some X_train, is_trained := True\<rparr>))"

definition ml_reason :: "real \<Rightarrow> Account \<Rightarrow> bool \<Rightarrow> real \<Rightarrow> reason" where
  "ml_reason amt account is_fraud anomaly_score =
     (if is_fraud then
        (if amt > daily_limit account then ML_exceeds_limit anomaly_score
         else if amt > fl (balance account * fl 0.8) then ML_large_withdrawal anomaly_score
         else ML_unusual anomaly_score)
      else ML_normal anomaly_score)"

definition predict ::
  "sklearn \<Rightarrow> (nat \<Rightarrow> real list) \<Rightarrow> int \<Rightarrow> real \<Rightarrow> Account \<Rightarrow> database \<Rightarrow> FraudDetector
     \<Rightarrow> (py_exception + bool \<times> reason \<times> real) \<times> FraudDetector" where
  "predict sk rng now amt account db det =
     (let (trained, det1) =
            (if \<not> is_trained det then train_on_historical_data rng db det else (Inr (), det))
      in case trained of
        Inl e \<Rightarrow> (Inl e, det1)
      | Inr u \<Rightarrow>
         (case extract_features now amt account db of
            Inl e \<Rightarrow> (Inl e, det1)
          | Inr features \<Rightarrow>
             (case fitted det1 of
                None \<Rightarrow> (Inl NotFittedError, det1)
              | Some X \<Rightarrow>
                 (case forest_predict sk X features of
                    Inl e \<Rightarrow> (Inl e, det1)
                  | Inr prediction \<Rightarrow>
                     (case score_samples sk X features of
                        Inl e \<Rightarrow> (Inl e, det1)
                      | Inr anomaly_score \<Rightarrow>
                          let is_fraud = (prediction = - 1)
                          in (Inr (is_fraud, ml_reason amt account is_fraud anomaly_score,
                                   anomaly_score), det1))))))"

definition check_fraud_ml ::
  "sklearn \<Rightarrow> (nat \<Rightarrow> real list) \<Rightarrow> int \<Rightarrow> real \<Rightarrow> Account \<Rightarrow> database \<Rightarrow> FraudDetector
     \<Rightarrow> (bool \<times> reason) \<times> FraudDetector" where
  "check_fraud_ml sk rng now amt account db det =
     (if amt > daily_limit account
      then ((True, Exceeds_daily_limit (daily_limit account)), det)
      else if recent_large now account db \<ge> 3 then ((True, Multiple_large), det)
      else case predict sk rng now amt account db det of
        (Inr (is_fraud, why, score), det1) \<Rightarrow>
          if is_fraud then ((True, why), det1) else ((False, Approved), det1)
      | (Inl e, det1) \<Rightarrow> ((False, Approved), det1))"


section \<open>The transfer with the fraud pipeline\<close>


section \<open>The rule engine as the specification words it\<close>

text \<open>
  The three rules in the order of the specification, each as the pair of its condition
  and its reason; \<open>rule_engine\<close> answers the reason of the first rule whose condition
  holds, or \<open>None\<close>. The product \<open>0.8 * balance\<close> of the third rule is a product
  of doubles.
\<close>

definition large_in_last_hour :: "int \<Rightarrow> Account \<Rightarrow> database \<Rightarrow> nat" where
  "large_in_last_hour now account db =
     length (filter (\<lambda>t. from_account_id t = Some (acc_id account) \<and> amount t > 10000
                         \<and> now - timestamp t \<le> timedelta_hours 1) (transactions db))"

definition rules :: "int \<Rightarrow> real \<Rightarrow> Account \<Rightarrow> database \<Rightarrow> (bool \<times> reason) list" where
  "rules now amt account db =
     [(amt > daily_limit account, Exceeds_daily_limit (daily_limit account)),
      (large_in_last_hour now account db \<ge> 3, Multiple_large),
      (amt > fl (fl 0.8 * balance account) \<and> amt > 50000, Large_withdrawal)]"

definition rule_engine :: "(bool \<times> reason) list \<Rightarrow> reason option" where
  "rule_engine rs = map_option snd (find fst rs)"

text \<open>What \<open>check_fraud_ml\<close> makes of the answer of \<open>predict\<close>.\<close>

definition scorer_verdict :: "py_exception + bool \<times> reason \<times> real \<Rightarrow> bool \<times> reason" where
  "scorer_verdict r =
     (case r of
        Inl e \<Rightarrow> (False, Approved)
      | Inr (is_fraud, why, score) \<Rightarrow> if is_fraud then (True, why) else (False, Approved))"

section \<open>Sample scorers\<close>

definition sk_normal :: sklearn where
  "sk_normal = \<lparr>forest_predict = (\<lambda>X f. Inr 1), score_samples = (\<lambda>X f. Inr (- (1 / 2)))\<rparr>"



definition rng_const :: "nat \<Rightarrow> real list" where
  "rng_const k = [5000, 1 / 8, 0, 1, 12, 3, 1 / 4]"

definition empty_db :: database where
  "empty_db = \<lparr>accounts = [], transactions = [], audit_logs = []\<rparr>"

section \<open>Vocabulary of the statements and sample data\<close>

text \<open>
  \<open>resolves uid req db i j\<close>: the request passes the schema, the source lookup of
  actor \<open>uid\<close> finds the row at position \<open>i\<close>, the destination lookup finds the row
  at position \<open>j\<close>, and both rows are active.
\<close>

definition resolves :: "nat \<Rightarrow> TransferRequest \<Rightarrow> database \<Rightarrow> nat \<Rightarrow> nat \<Rightarrow> bool" where
  "resolves uid req db i j \<longleftrightarrow>
     0 < req_amount req
     \<and> first_index (source_filter uid req) (accounts db) = Some i \<and> is_active (accounts db ! i)
     \<and> first_index (dest_filter req) (accounts db) = Some j \<and> is_active (accounts db ! j)"

definition acct :: "nat \<Rightarrow> string \<Rightarrow> nat \<Rightarrow> real \<Rightarrow> bool \<Rightarrow> real \<Rightarrow> Account" where
  "acct k num uid bal active lmt =
     \<lparr>acc_id = k, account_number = num, acc_user_id = uid, account_type = SAVINGS,
      balance = bal, is_active = active, daily_limit = lmt\<rparr>"

definition bank :: database where
  "bank = \<lparr>accounts = [acct 1 ''1000000001'' 1 10000 True 100000,
                       acct 2 ''1000000002'' 2 1000 True 100000,
                       acct 3 ''1000000003'' 1 500 False 100000],
           transactions = [], audit_logs = []\<rparr>"

definition request :: "string \<Rightarrow> string \<Rightarrow> real \<Rightarrow> TransferRequest" where
  "request src dst amt =
     \<lparr>from_account_number = src, to_account_number = dst, req_amount = amt,
      req_description = None\<rparr>"

definition bank_large :: database where
  "bank_large = \<lparr>accounts = [acct 1 ''1000000001'' 1 200000 True 100000,
                             acct 2 ''1000000002'' 2 1000 True 100000],
                 transactions = [], audit_logs = []\<rparr>"

text \<open>
  Balances that are not whole numbers: \<open>1.0\<close> and \<open>2.06\<close>, for a transfer of \<open>0.01\<close>;
  and \<open>1.2\<close>, for a transfer of \<open>0.14\<close> of the account to itself.
\<close>

definition bank_cents :: database where
  "bank_cents = \<lparr>accounts = [acct 1 ''1000000001'' 1 1 True 100000,
                             acct 2 ''1000000002'' 2 (fl (206 / 100)) True 100000],
                 transactions = [], audit_logs = []\<rparr>"

definition bank_single :: database where
  "bank_single = \<lparr>accounts = [acct 1 ''1000000001'' 1 (fl (12 / 10)) True 100000],
                  transactions = [], audit_logs = []\<rparr>"

text \<open>
  Two accounts, the first with a history of \<open>n\<close> transfers to the second, inserted one
  per hour from the epoch on: transfer \<open>k\<close> (counted from 0) is of amount \<open>k + 1\<close>.
  \<open>history_rows n\<close> are the training rows of the first \<open>n\<close> of them for a balance of
  1024 and a daily limit of 4096.
\<close>

definition history :: "nat \<Rightarrow> Transaction list" where
  "history n =
     map (\<lambda>k. \<lparr>txn_id = Suc k, transaction_type = TRANSFER, from_account_id = Some 1,
                to_account_id = Some 2, amount = real (Suc k), balance_after = None,
                description = None, is_flagged = False, flag_reason = None,
                timestamp = timedelta_hours (int k)\<rparr>) [0..<n]"

definition bank_history :: "nat \<Rightarrow> database" where
  "bank_history n = \<lparr>accounts = [acct 1 ''1000000001'' 1 1024 True 4096,
                                 acct 2 ''1000000002'' 2 512 True 4096],
                     transactions = history n, audit_logs = []\<rparr>"

definition history_rows :: "nat \<Rightarrow> real list list" where
  "history_rows n =
     map (\<lambda>k. [real (Suc k), real (Suc k) / 1024, real (Suc k), 1,
               real_of_int (int k mod 24), real_of_int ((int k div 24 + 3) mod 7),
               real (Suc k) / 4096]) [0..<n]"

text \<open>
  The committed states a request produces, in order: the endpoint commits once at
  line 349 (balances and transaction row) and \<open>create_audit_log\<close> commits a second
  time (audit row). A request that raises commits nothing.
\<close>

definition commit_points :: "int \<Rightarrow> nat \<Rightarrow> TransferRequest \<Rightarrow> database \<Rightarrow> database list" where
  "commit_points now uid req db =
     (case transfer_commit now uid req db of
        (Inl e, db1) \<Rightarrow> []
      | (Inr t, db1) \<Rightarrow> [db1, snd (transfer now uid req db)])"

text \<open>
  A committed state \<open>s\<close> shows all three effects of a transfer (balances, transaction
  row, audit row) relative to \<open>db\<close>, or none of them.
\<close>

definition all_or_nothing :: "database \<Rightarrow> database \<Rightarrow> bool" where
  "all_or_nothing db s \<longleftrightarrow>
     (accounts s \<noteq> accounts db \<and> transactions s \<noteq> transactions db
        \<and> audit_logs s \<noteq> audit_logs db)
     \<or> (accounts s = accounts db \<and> transactions s = transactions db
        \<and> audit_logs s = audit_logs db)"

lemmas eval_defs = transfer_def transfer_commit_def bank_def request_def acct_def
  source_filter_def dest_filter_def check_fraud_def recent_large_def execute_transfer_def
  new_transaction_def create_audit_log_def next_id_def Let_def resolves_def

section \<open>Properties of the rounding\<close>

lemma rne_of_int [simp]: "rne (of_int z) = z"
  by (simp add: rne_def)

lemma rne_zero [simp]: "rne 0 = 0"
  by (simp add: rne_def)

lemma rne_nonneg: "0 \<le> x \<Longrightarrow> 0 \<le> rne x"
  by (auto simp: rne_def Let_def)

lemma ulp_pos: "0 < ulp x"
  unfolding ulp_def by (rule divide_pos_pos) simp_all

lemma fl_nonneg: "0 \<le> x \<Longrightarrow> 0 \<le> fl x"
  using rne_nonneg [of "x / ulp x"] ulp_pos [of x] by (simp add: fl_def)

lemma fl_exact:
  assumes "x / ulp x \<in> \<int>"
  shows "fl x = x"
proof -
  from assms obtain z where z: "x / ulp x = of_int z" by (auto elim: Ints_cases)
  have "of_int (rne (x / ulp x)) * ulp x = (x / ulp x) * ulp x" by (simp add: z)
  also have "\<dots> = x" using ulp_pos [of x] by simp
  finally show ?thesis by (simp add: fl_def)
qed

lemma bitlen_eqI:
  assumes "2 ^ m \<le> n" and "n < 2 ^ Suc m"
  shows "bitlen n = int (Suc m)"
proof -
  have "bitlen n \<le> int (Suc m)"
    unfolding bitlen_le_iff_power nat_int using assms(2) by simp
  moreover have "int (Suc m) \<le> bitlen n"
    unfolding bitlen_ge_iff_power nat_int using assms(1) by simp
  ultimately show ?thesis by simp
qed

text \<open>
  The spacing of the doubles around \<open>a\<close>, for an arbitrary scale \<open>p\<close> in the place
  of 1074.
\<close>

lemma unit_eq:
  fixes a :: real
  assumes "2 ^ (52 + m) \<le> a * 2 ^ p" and "a * 2 ^ p < 2 ^ (53 + m)"
  shows "2 ^ nat (bitlen \<lfloor>a * 2 ^ p\<rfloor> - 53) / 2 ^ p = (2 ^ m / 2 ^ p :: real)"
proof -
  let ?n = "\<lfloor>a * 2 ^ p\<rfloor>"
  have l: "2 ^ (52 + m) \<le> ?n"
    unfolding le_floor_iff using assms(1) by (simp only: of_int_power of_int_numeral)
  have "?n < 2 ^ (53 + m)"
    unfolding floor_less_iff using assms(2) by (simp only: of_int_power of_int_numeral)
  then have u: "?n < 2 ^ Suc (52 + m)" by simp
  from bitlen_eqI [OF l u] have "nat (bitlen ?n - 53) = m" by simp
  then show ?thesis by simp
qed

lemma unit_inverse:
  fixes a :: real
  assumes "k \<le> p" and "2 ^ 52 \<le> a * 2 ^ k" and "a * 2 ^ k < 2 ^ 53"
  shows "2 ^ nat (bitlen \<lfloor>a * 2 ^ p\<rfloor> - 53) / 2 ^ p = (1 / 2 ^ k :: real)"
proof -
  obtain m where m: "p = k + m" using assms(1) by (metis le_Suc_ex)
  have e: "a * 2 ^ p = (a * 2 ^ k) * 2 ^ m" by (simp add: m power_add)
  have "(2::real) ^ 52 * 2 ^ m \<le> (a * 2 ^ k) * 2 ^ m"
    using assms(2) by (rule mult_right_mono) simp
  then have l: "2 ^ (52 + m) \<le> a * 2 ^ p" by (simp only: e power_add)
  have "(a * 2 ^ k) * 2 ^ m < (2::real) ^ 53 * 2 ^ m"
    using assms(3) by (rule mult_strict_right_mono) simp
  then have u: "a * 2 ^ p < 2 ^ (53 + m)" by (simp only: e power_add)
  have "2 ^ nat (bitlen \<lfloor>a * 2 ^ p\<rfloor> - 53) / 2 ^ p = (2 ^ m / 2 ^ p :: real)"
    using l u by (rule unit_eq)
  also have "\<dots> = 1 / 2 ^ k" by (simp add: m power_add)
  finally show ?thesis .
qed

lemma unit_power:
  fixes a :: real
  assumes "2 ^ 52 \<le> a / 2 ^ k" and "a / 2 ^ k < 2 ^ 53"
  shows "2 ^ nat (bitlen \<lfloor>a * 2 ^ p\<rfloor> - 53) / 2 ^ p = (2 ^ k :: real)"
proof -
  have e: "a * 2 ^ p = (a / 2 ^ k) * 2 ^ (k + p)" by (simp add: power_add)
  have "(2::real) ^ 52 * 2 ^ (k + p) \<le> (a / 2 ^ k) * 2 ^ (k + p)"
    using assms(1) by (rule mult_right_mono) simp
  then have l: "2 ^ (52 + (k + p)) \<le> a * 2 ^ p" by (simp only: e power_add [of 2 52])
  have "(a / 2 ^ k) * 2 ^ (k + p) < (2::real) ^ 53 * 2 ^ (k + p)"
    using assms(2) by (rule mult_strict_right_mono) simp
  then have u: "a * 2 ^ p < 2 ^ (53 + (k + p))" by (simp only: e power_add [of 2 53])
  have "2 ^ nat (bitlen \<lfloor>a * 2 ^ p\<rfloor> - 53) / 2 ^ p = (2 ^ (k + p) / 2 ^ p :: real)"
    using l u by (rule unit_eq)
  also have "\<dots> = 2 ^ k" by (simp add: power_add)
  finally show ?thesis .
qed

lemma unit_dyadic:
  assumes "0 < n" and "n < 2 ^ 53" and "k \<le> p"
  shows "\<exists>j. k \<le> j \<and>
           2 ^ nat (bitlen \<lfloor>real_of_int n / 2 ^ k * 2 ^ p\<rfloor> - 53) / 2 ^ p = (1 / 2 ^ j :: real)"
proof -
  obtain q where q: "p = k + q" using assms(3) by (metis le_Suc_ex)
  have "real_of_int n / 2 ^ k * 2 ^ p = of_int (n * 2 ^ q)" by (simp add: q power_add)
  then have f: "\<lfloor>real_of_int n / 2 ^ k * 2 ^ p\<rfloor> = n * 2 ^ q" by (simp only: floor_of_int)
  have b: "bitlen n \<le> 53" using assms(2) by (simp add: bitlen_le_iff_power)
  have b1: "1 \<le> bitlen n" using assms(1) by (simp add: bitlen_ge_iff_power)
  define i where "i = nat (bitlen n + int q - 53)"
  have "i \<le> q" using b by (simp add: i_def)
  then obtain d where d: "q = i + d" by (metis le_Suc_ex)
  have "2 ^ nat (bitlen \<lfloor>real_of_int n / 2 ^ k * 2 ^ p\<rfloor> - 53) / 2 ^ p = (2 ^ i / 2 ^ p :: real)"
    by (simp only: f bitlen_pow2 [OF assms(1)] i_def)
  also have "\<dots> = 1 / 2 ^ (k + d)" by (simp add: q d power_add)
  finally show ?thesis by (intro exI [of _ "k + d"]) simp
qed

lemma ulp_eq_inverse:
  assumes "k \<le> 1074" and "2 ^ 52 \<le> \<bar>x\<bar> * 2 ^ k" and "\<bar>x\<bar> * 2 ^ k < 2 ^ 53"
  shows "ulp x = 1 / 2 ^ k"
  unfolding ulp_def using assms by (rule unit_inverse)

lemma ulp_eq_power:
  assumes "2 ^ 52 \<le> \<bar>x\<bar> / 2 ^ k" and "\<bar>x\<bar> / 2 ^ k < 2 ^ 53"
  shows "ulp x = 2 ^ k"
  unfolding ulp_def using assms by (rule unit_power)

lemma fl_eq_inverse:
  assumes "k \<le> 1074" and "2 ^ 52 \<le> \<bar>x\<bar> * 2 ^ k" and "\<bar>x\<bar> * 2 ^ k < 2 ^ 53"
  shows "fl x = of_int (rne (x * 2 ^ k)) / 2 ^ k"
  by (simp add: fl_def ulp_eq_inverse [OF assms])

lemma fl_eq_power:
  assumes "2 ^ 52 \<le> \<bar>x\<bar> / 2 ^ k" and "\<bar>x\<bar> / 2 ^ k < 2 ^ 53"
  shows "fl x = of_int (rne (x / 2 ^ k)) * 2 ^ k"
  by (simp add: fl_def ulp_eq_power [OF assms])

lemma fl_zero [simp]: "fl 0 = 0"
  by (simp add: fl_def)

lemma fl_dyadic:
  assumes "\<bar>z\<bar> < 2 ^ 53" and "k \<le> 1074"
  shows "fl (of_int z / 2 ^ k) = of_int z / 2 ^ k"
proof (cases "z = 0")
  case True
  then show ?thesis by simp
next
  case False
  define n where "n = \<bar>z\<bar>"
  have n: "0 < n" "n < 2 ^ 53" using False assms(1) by (simp_all add: n_def)
  have a: "\<bar>real_of_int z / 2 ^ k\<bar> = of_int n / 2 ^ k" by (simp add: n_def)
  from unit_dyadic [OF n assms(2)] obtain j where j: "k \<le> j"
    and u: "ulp (of_int z / 2 ^ k) = 1 / 2 ^ j"
    unfolding ulp_def a by auto
  from j obtain d where d: "j = k + d" by (metis le_Suc_ex)
  have "of_int z / 2 ^ k / ulp (of_int z / 2 ^ k) = of_int (z * 2 ^ d)"
    by (simp add: u d power_add)
  then have "of_int z / 2 ^ k / ulp (of_int z / 2 ^ k) \<in> \<int>" by (simp only: Ints_of_int)
  then show ?thesis by (rule fl_exact)
qed

lemma fl_whole:
  assumes "x \<in> \<int>" and "\<bar>x\<bar> < 2 ^ 53"
  shows "fl x = x"
proof -
  from assms(1) obtain z where z: "x = of_int z" by (auto elim: Ints_cases)
  have "of_int \<bar>z\<bar> < (of_int (2 ^ 53) :: real)" using assms(2) unfolding z by simp
  then have "\<bar>z\<bar> < 2 ^ 53" by (simp only: of_int_less_iff)
  from fl_dyadic [OF this, of 0] show ?thesis by (simp add: z)
qed

lemma fl_numeral [simp]: "(numeral n :: int) < 2 ^ 53 \<Longrightarrow> fl (numeral n) = numeral n"
proof -
  assume a: "(numeral n :: int) < 2 ^ 53"
  have "\<bar>numeral n :: real\<bar> = of_int (numeral n)" by simp
  also have "\<dots> < of_int (2 ^ 53)" using a by (simp only: of_int_less_iff)
  finally have "\<bar>numeral n :: real\<bar> < 2 ^ 53" by simp
  then show ?thesis by (intro fl_whole) simp_all
qed

lemma fl_one [simp]: "fl 1 = 1"
  by (rule fl_whole) simp_all

text \<open>
  Doubles that the sample data use: the literals \<open>0.01\<close>, \<open>2.06\<close>, \<open>1.2\<close>, \<open>0.14\<close> and
  \<open>0.8\<close>, and the results of the operations on them.
\<close>

lemma fl_cent: "fl (1 / 100) = 5764607523034235 / 2 ^ 59"
  by (subst fl_eq_inverse [where k = 59]) (simp_all add: rne_def)

lemma fl_206: "fl (206 / 100) = 4638707616191611 / 2 ^ 51"
  by (subst fl_eq_inverse [where k = 51]) (simp_all add: rne_def)

lemma fl_debit_cent: "fl (1 - fl (1 / 100)) = 4458563631096791 / 2 ^ 52"
  unfolding fl_cent by (subst fl_eq_inverse [where k = 53]) (simp_all add: rne_def)

lemma fl_credit_cent: "fl (fl (206 / 100) + fl (1 / 100)) = 4661225614328463 / 2 ^ 51"
  unfolding fl_cent fl_206 by (subst fl_eq_inverse [where k = 51]) (simp_all add: rne_def)

lemma fl_12: "fl (12 / 10) = 5404319552844595 / 2 ^ 52"
  by (subst fl_eq_inverse [where k = 52]) (simp_all add: rne_def)

lemma fl_14: "fl (14 / 100) = 1261007895663739 / 2 ^ 53"
  by (subst fl_eq_inverse [where k = 55]) (simp_all add: rne_def)

lemma fl_debit_14: "fl (fl (12 / 10) - fl (14 / 100)) = 2386907802506363 / 2 ^ 51"
  unfolding fl_12 fl_14 by (subst fl_eq_inverse [where k = 52]) (simp_all add: rne_def)

lemma fl_credit_14:
  "fl (fl (fl (12 / 10) - fl (14 / 100)) + fl (14 / 100)) = 1351079888211149 / 2 ^ 50"
  unfolding fl_debit_14 unfolding fl_14
  by (subst fl_eq_inverse [where k = 52]) (simp_all add: rne_def)



section \<open>Properties of the queries\<close>

lemma first_index_Some:
  "first_index P xs = Some i \<Longrightarrow> i < length xs \<and> P (xs ! i)"
proof (induction xs arbitrary: i)
  case Nil
  then show ?case by simp
next
  case (Cons x xs)
  then show ?case by (cases "P x") (auto simp: nth_Cons')
qed

lemma first_index_None:
  "first_index P xs = None \<longleftrightarrow> (\<forall>x \<in> set xs. \<not> P x)"
  by (induction xs) auto

section \<open>Properties of the transfer\<close>

lemma execute_transfer_length [simp]:
  "length (execute_transfer i j amt accs) = length accs"
  by (simp add: execute_transfer_def Let_def)

lemma execute_transfer_source:
  assumes "i < length accs" and "i \<noteq> j"
  shows "balance (execute_transfer i j amt accs ! i) = fl (balance (accs ! i) - amt)"
  using assms by (simp add: execute_transfer_def Let_def)

lemma execute_transfer_destination:
  assumes "j < length accs" and "i \<noteq> j"
  shows "balance (execute_transfer i j amt accs ! j) = fl (balance (accs ! j) + amt)"
  using assms by (simp add: execute_transfer_def Let_def)

lemma execute_transfer_self:
  assumes "i < length accs"
  shows "execute_transfer i i amt accs
           = accs[i := (accs ! i)\<lparr>balance := fl (fl (balance (accs ! i) - amt) + amt)\<rparr>]"
  using assms by (simp add: execute_transfer_def Let_def)

lemma execute_transfer_other:
  "k \<noteq> i \<Longrightarrow> k \<noteq> j \<Longrightarrow> execute_transfer i j amt accs ! k = accs ! k"
  by (simp add: execute_transfer_def Let_def)

lemma execute_transfer_acc_id:
  assumes "k < length accs"
  shows "acc_id (execute_transfer i j amt accs ! k) = acc_id (accs ! k)"
  using assms by (cases "k = j"; cases "k = i") (simp_all add: execute_transfer_def Let_def)

lemma execute_transfer_nonneg:
  assumes "\<forall>a \<in> set accs. 0 \<le> balance a" and "0 < amt" and "amt \<le> balance (accs ! i)"
    and "i < length accs" and "j < length accs"
  shows "\<forall>a \<in> set (execute_transfer i j amt accs). 0 \<le> balance a"
proof
  fix a assume "a \<in> set (execute_transfer i j amt accs)"
  then obtain k where k: "k < length accs" and a: "a = execute_transfer i j amt accs ! k"
    by (auto simp: in_set_conv_nth)
  have old: "0 \<le> balance (accs ! k)" "0 \<le> balance (accs ! j)"
    using assms(1) k assms(5) by simp_all
  have debit: "0 \<le> fl (balance (accs ! i) - amt)"
    using assms(3) by (intro fl_nonneg) simp
  have credit: "0 \<le> fl (balance (accs ! j) + amt)"
    using old(2) assms(2) by (intro fl_nonneg) simp
  have both: "0 \<le> fl (fl (balance (accs ! i) - amt) + amt)"
    using debit assms(2) by (intro fl_nonneg) simp
  show "0 \<le> balance a"
    using old debit credit both assms(4,5) k unfolding a
    by (cases "k = j"; cases "k = i") (auto simp: execute_transfer_def Let_def)
qed

lemma fl_debit_credit_whole:
  assumes "b \<in> \<int>" and "amt \<in> \<int>" and "0 < amt" and "amt \<le> b" and "b < 2 ^ 53"
  shows "fl (fl (b - amt) + amt) = b"
proof -
  have "fl (b - amt) = b - amt"
    using assms by (intro fl_whole) (simp_all add: Ints_diff)
  moreover have "fl b = b"
    using assms by (intro fl_whole) simp_all
  ultimately show ?thesis by simp
qed

lemma execute_transfer_whole:
  assumes "i < length accs" and "j < length accs"
    and "balance (accs ! i) \<in> \<int>" and "balance (accs ! j) \<in> \<int>" and "amt \<in> \<int>"
    and "0 < amt" and "amt \<le> balance (accs ! i)" and "balance (accs ! i) < 2 ^ 53"
    and "\<bar>balance (accs ! j) + amt\<bar> < 2 ^ 53"
  shows "balance (execute_transfer i j amt accs ! i) + balance (execute_transfer i j amt accs ! j)
         = balance (accs ! i) + balance (accs ! j)"
proof (cases "i = j")
  case True
  with assms(1) fl_debit_credit_whole [OF assms(3,5,6,7,8)] show ?thesis
    by (simp add: execute_transfer_self)
next
  case False
  have "fl (balance (accs ! i) - amt) = balance (accs ! i) - amt"
    using assms(3,5,6,7,8) by (intro fl_whole) (simp_all add: Ints_diff)
  moreover have "fl (balance (accs ! j) + amt) = balance (accs ! j) + amt"
    using assms(4,5,9) by (intro fl_whole) (simp_all add: Ints_add)
  ultimately show ?thesis
    using False assms(1,2) by (simp add: execute_transfer_source execute_transfer_destination)
qed

lemma transfer_commit_ok:
  assumes "resolves uid req db i j" and "req_amount req \<le> balance (accounts db ! i)"
  shows "transfer_commit now uid req db =
           (let accs = execute_transfer i j (req_amount req) (accounts db);
                t = new_transaction now req db (accs ! i) (accs ! j)
                      (check_fraud now (req_amount req) (accounts db ! i) db)
            in (Inr t, db\<lparr>accounts := accs, transactions := transactions db @ [t]\<rparr>))"
  using assms by (simp add: transfer_commit_def resolves_def Let_def)

lemma transfer_commit_Inr:
  assumes "transfer_commit now uid req db = (Inr t, db')"
  shows "\<exists>i j. resolves uid req db i j \<and> req_amount req \<le> balance (accounts db ! i)"
  using assms
  by (auto simp: transfer_commit_def resolves_def Let_def split: if_splits option.splits)

lemma transfer_commit_Inl:
  assumes "transfer_commit now uid req db = (Inl e, db')"
  shows "db' = db"
  using assms
  by (auto simp: transfer_commit_def Let_def split: if_splits option.splits)

lemma transfer_Inr:
  assumes "transfer now uid req db = (Inr t, db')"
  shows "\<exists>db1. transfer_commit now uid req db = (Inr t, db1) \<and> accounts db' = accounts db1
            \<and> transactions db' = transactions db1"
  using assms
  by (auto simp: transfer_def create_audit_log_def split: prod.splits sum.splits)

lemma transfer_Inl:
  "transfer now uid req db = (Inl e, db') \<longleftrightarrow> transfer_commit now uid req db = (Inl e, db')"
  by (auto simp: transfer_def split: prod.splits sum.splits)

lemma resolves_bounds:
  "resolves uid req db i j \<Longrightarrow> i < length (accounts db) \<and> j < length (accounts db)"
  by (auto simp: resolves_def dest: first_index_Some)

text \<open>The whole answer of the endpoint for a request that resolves and is funded.\<close>

lemma transfer_ok:
  assumes "resolves uid req db i j" and "req_amount req \<le> balance (accounts db ! i)"
  shows "transfer now uid req db =
           (let accs = execute_transfer i j (req_amount req) (accounts db);
                t = new_transaction now req db (accs ! i) (accs ! j)
                      (check_fraud now (req_amount req) (accounts db ! i) db)
            in (Inr t,
                create_audit_log now
                  (db\<lparr>accounts := accs, transactions := transactions db @ [t]\<rparr>) uid ''TRANSFER''
                  (Some (Transfer_details (req_amount req)
                           (from_account_number req) (to_account_number req)))))"
  using transfer_commit_ok [OF assms, of now] by (simp add: transfer_def Let_def)

section \<open>Conservation\<close>

lemma bank_cents_resolves:
  "resolves 1 (request ''1000000001'' ''1000000002'' (fl (1 / 100))) bank_cents 0 1"
  by (simp add: resolves_def request_def bank_cents_def acct_def source_filter_def
      dest_filter_def fl_cent)

lemma bank_cents_funded:
  "req_amount (request ''1000000001'' ''1000000002'' (fl (1 / 100)))
     \<le> balance (accounts bank_cents ! 0)"
  by (simp add: request_def bank_cents_def acct_def fl_cent)

lemma bank_cents_check_fraud:
  "check_fraud 0 (fl (1 / 100)) (accounts bank_cents ! 0) bank_cents = (False, Empty_reason)"
  by (simp add: check_fraud_def recent_large_def bank_cents_def acct_def fl_cent)

lemma bank_cents_execute_transfer:
  "execute_transfer 0 1 (fl (1 / 100)) (accounts bank_cents)
     = [acct 1 ''1000000001'' 1 (4458563631096791 / 2 ^ 52) True 100000,
        acct 2 ''1000000002'' 2 (4661225614328463 / 2 ^ 51) True 100000]"
proof -
  have "execute_transfer 0 1 (fl (1 / 100)) (accounts bank_cents)
     = [acct 1 ''1000000001'' 1 (fl (1 - fl (1 / 100))) True 100000,
        acct 2 ''1000000002'' 2 (fl (fl (206 / 100) + fl (1 / 100))) True 100000]"
    by (simp add: execute_transfer_def bank_cents_def acct_def)
  then show ?thesis by (simp only: fl_debit_cent fl_credit_cent)
qed

text \<open>
  C1, as stated: the sum of the two balances after a successful transfer equals their
  sum before. On the code the balances are doubles: the transfer of \<open>0.01\<close> from an
  account holding \<open>1.0\<close> to an account holding \<open>2.06\<close> succeeds and leaves the two
  doubles nearest to \<open>0.99\<close> and \<open>2.07\<close>, whose sum is not the sum of \<open>1.0\<close> and the
  double \<open>2.06\<close>, neither exactly nor after the rounding of the two additions.
\<close>

theorem transfer_conservation_counterexample:
  "transfer 0 1 (request ''1000000001'' ''1000000002'' (fl (1 / 100))) bank_cents =
     (Inr \<lparr>txn_id = 1, transaction_type = TRANSFER, from_account_id = Some 1,
           to_account_id = Some 2, amount = fl (1 / 100),
           balance_after = Some (4458563631096791 / 2 ^ 52),
           description = None, is_flagged = False, flag_reason = None, timestamp = 0\<rparr>,
      \<lparr>accounts = [acct 1 ''1000000001'' 1 (4458563631096791 / 2 ^ 52) True 100000,
                   acct 2 ''1000000002'' 2 (4661225614328463 / 2 ^ 51) True 100000],
       transactions = [\<lparr>txn_id = 1, transaction_type = TRANSFER, from_account_id = Some 1,
           to_account_id = Some 2, amount = fl (1 / 100),
           balance_after = Some (4458563631096791 / 2 ^ 52),
           description = None, is_flagged = False, flag_reason = None, timestamp = 0\<rparr>],
       audit_logs = [\<lparr>log_id = 1, log_user_id = 1, action = ''TRANSFER'',
           log_details = Some (Transfer_details (fl (1 / 100)) ''1000000001'' ''1000000002''),
           log_timestamp = 0\<rparr>]\<rparr>)
   \<and> balance (accounts bank_cents ! 0) = 1
   \<and> balance (accounts bank_cents ! 1) = 4638707616191611 / 2 ^ 51
   \<and> 4458563631096791 / 2 ^ 52 + 4661225614328463 / 2 ^ 51
       \<noteq> (1 :: real) + 4638707616191611 / 2 ^ 51
   \<and> fl (4458563631096791 / 2 ^ 52 + 4661225614328463 / 2 ^ 51)
       \<noteq> fl (1 + 4638707616191611 / 2 ^ 51)"
proof -
  have t: "transfer 0 1 (request ''1000000001'' ''1000000002'' (fl (1 / 100))) bank_cents =
     (Inr \<lparr>txn_id = 1, transaction_type = TRANSFER, from_account_id = Some 1,
           to_account_id = Some 2, amount = fl (1 / 100),
           balance_after = Some (4458563631096791 / 2 ^ 52),
           description = None, is_flagged = False, flag_reason = None, timestamp = 0\<rparr>,
      \<lparr>accounts = [acct 1 ''1000000001'' 1 (4458563631096791 / 2 ^ 52) True 100000,
                   acct 2 ''1000000002'' 2 (4661225614328463 / 2 ^ 51) True 100000],
       transactions = [\<lparr>txn_id = 1, transaction_type = TRANSFER, from_account_id = Some 1,
           to_account_id = Some 2, amount = fl (1 / 100),
           balance_after = Some (4458563631096791 / 2 ^ 52),
           description = None, is_flagged = False, flag_reason = None, timestamp = 0\<rparr>],
       audit_logs = [\<lparr>log_id = 1, log_user_id = 1, action = ''TRANSFER'',
           log_details = Some (Transfer_details (fl (1 / 100)) ''1000000001'' ''1000000002''),
           log_timestamp = 0\<rparr>]\<rparr>)"
  proof -
    have a: "req_amount (request ''1000000001'' ''1000000002'' (fl (1 / 100))) = fl (1 / 100)"
      by (simp add: request_def)
    note transfer_ok [OF bank_cents_resolves bank_cents_funded, of 0,
        unfolded a bank_cents_execute_transfer bank_cents_check_fraud Let_def]
    then show ?thesis
      by (simp add: new_transaction_def create_audit_log_def next_id_def request_def
          bank_cents_def acct_def)
  qed
  have b0: "balance (accounts bank_cents ! 0) = 1"
    by (simp add: bank_cents_def acct_def)
  have "balance (accounts bank_cents ! 1) = fl (206 / 100)"
    by (simp add: bank_cents_def acct_def)
  then have b1: "balance (accounts bank_cents ! 1) = 4638707616191611 / 2 ^ 51"
    by (simp only: fl_206)
  have e: "4458563631096791 / 2 ^ 52 + 4661225614328463 / 2 ^ 51
       \<noteq> (1 :: real) + 4638707616191611 / 2 ^ 51"
    by simp
  have l: "fl (4458563631096791 / 2 ^ 52 + 4661225614328463 / 2 ^ 51)
             = 6890507429876858 / 2 ^ 51"
    by (subst fl_eq_inverse [where k = 51]) (simp_all add: rne_def)
  have r: "fl (1 + 4638707616191611 / 2 ^ 51) = 6890507429876859 / 2 ^ 51"
    by (subst fl_eq_inverse [where k = 51]) (simp_all add: rne_def)
  have "fl (4458563631096791 / 2 ^ 52 + 4661225614328463 / 2 ^ 51)
       \<noteq> fl (1 + 4638707616191611 / 2 ^ 51)"
    unfolding l r by simp
  with t b0 b1 e show ?thesis by (intro conjI)
qed

text \<open>
  C1, amended. A successful transfer sets the balance of the source to the double
  nearest to its old balance less the amount, and the balance of the destination to the
  double nearest to its old balance plus the amount; when source and destination are
  one row, the credit is applied to the debited balance. When the two balances and the
  amount are whole numbers, the source balance is below \<open>2 ^ 53\<close> and the credited
  balance is below \<open>2 ^ 53\<close> in magnitude, neither operation rounds, and the sum of the
  two balances after the transfer equals their sum before.
\<close>

theorem transfer_conservation_rounded:
  assumes "transfer now uid req db = (Inr t, db')"
  shows "\<exists>i j. first_index (source_filter uid req) (accounts db) = Some i
          \<and> first_index (dest_filter req) (accounts db) = Some j
          \<and> balance (accounts db' ! i)
              = (if i = j
                 then fl (fl (balance (accounts db ! i) - req_amount req) + req_amount req)
                 else fl (balance (accounts db ! i) - req_amount req))
          \<and> balance (accounts db' ! j)
              = (if i = j
                 then fl (fl (balance (accounts db ! i) - req_amount req) + req_amount req)
                 else fl (balance (accounts db ! j) + req_amount req))
          \<and> (balance (accounts db ! i) \<in> \<int> \<and> balance (accounts db ! j) \<in> \<int>
               \<and> req_amount req \<in> \<int> \<and> balance (accounts db ! i) < 2 ^ 53
               \<and> \<bar>balance (accounts db ! j) + req_amount req\<bar> < 2 ^ 53
              \<longrightarrow> balance (accounts db' ! i) + balance (accounts db' ! j)
                    = balance (accounts db ! i) + balance (accounts db ! j))"
proof -
  from transfer_Inr [OF assms] obtain db1 where
    c: "transfer_commit now uid req db = (Inr t, db1)" and a: "accounts db' = accounts db1"
    by blast
  from transfer_commit_Inr [OF c] obtain i j where
    r: "resolves uid req db i j" and f: "req_amount req \<le> balance (accounts db ! i)"
    by blast
  have "accounts db1 = execute_transfer i j (req_amount req) (accounts db)"
    using transfer_commit_ok [OF r f, of now] c by (simp add: Let_def)
  with a have x: "accounts db' = execute_transfer i j (req_amount req) (accounts db)" by simp
  note b = resolves_bounds [OF r]
  have pos: "0 < req_amount req" using r by (simp add: resolves_def)
  have s: "balance (accounts db' ! i)
              = (if i = j
                 then fl (fl (balance (accounts db ! i) - req_amount req) + req_amount req)
                 else fl (balance (accounts db ! i) - req_amount req))"
    unfolding x using b by (simp add: execute_transfer_source execute_transfer_self)
  have d: "balance (accounts db' ! j)
              = (if i = j
                 then fl (fl (balance (accounts db ! i) - req_amount req) + req_amount req)
                 else fl (balance (accounts db ! j) + req_amount req))"
    unfolding x using b by (simp add: execute_transfer_destination execute_transfer_self)
  have w: "balance (accounts db ! i) \<in> \<int> \<and> balance (accounts db ! j) \<in> \<int>
               \<and> req_amount req \<in> \<int> \<and> balance (accounts db ! i) < 2 ^ 53
               \<and> \<bar>balance (accounts db ! j) + req_amount req\<bar> < 2 ^ 53
              \<longrightarrow> balance (accounts db' ! i) + balance (accounts db' ! j)
                    = balance (accounts db ! i) + balance (accounts db ! j)"
    unfolding x using execute_transfer_whole [of i "accounts db" j "req_amount req"] b pos f
    by blast
  from r have "first_index (source_filter uid req) (accounts db) = Some i"
    and "first_index (dest_filter req) (accounts db) = Some j"
    by (simp_all add: resolves_def)
  with s d w show ?thesis by blast
qed

lemma bank_transfer_2000:
  "transfer 0 1 (request ''1000000001'' ''1000000002'' 2000) bank =
     (Inr \<lparr>txn_id = 1, transaction_type = TRANSFER, from_account_id = Some 1,
           to_account_id = Some 2, amount = 2000, balance_after = Some 8000,
           description = None, is_flagged = False, flag_reason = None, timestamp = 0\<rparr>,
      \<lparr>accounts = [acct 1 ''1000000001'' 1 8000 True 100000,
                   acct 2 ''1000000002'' 2 3000 True 100000,
                   acct 3 ''1000000003'' 1 500 False 100000],
       transactions = [\<lparr>txn_id = 1, transaction_type = TRANSFER, from_account_id = Some 1,
           to_account_id = Some 2, amount = 2000, balance_after = Some 8000,
           description = None, is_flagged = False, flag_reason = None, timestamp = 0\<rparr>],
       audit_logs = [\<lparr>log_id = 1, log_user_id = 1, action = ''TRANSFER'',
           log_details = Some (Transfer_details 2000 ''1000000001'' ''1000000002''),
           log_timestamp = 0\<rparr>]\<rparr>)"
  by (simp add: transfer_def transfer_commit_def bank_def request_def acct_def source_filter_def
      dest_filter_def check_fraud_def recent_large_def execute_transfer_def new_transaction_def
      create_audit_log_def next_id_def Let_def)

theorem transfer_conservation_rounded_witness:
  "transfer 0 1 (request ''1000000001'' ''1000000002'' 2000) bank =
     (Inr \<lparr>txn_id = 1, transaction_type = TRANSFER, from_account_id = Some 1,
           to_account_id = Some 2, amount = 2000, balance_after = Some 8000,
           description = None, is_flagged = False, flag_reason = None, timestamp = 0\<rparr>,
      \<lparr>accounts = [acct 1 ''1000000001'' 1 8000 True 100000,
                   acct 2 ''1000000002'' 2 3000 True 100000,
                   acct 3 ''1000000003'' 1 500 False 100000],
       transactions = [\<lparr>txn_id = 1, transaction_type = TRANSFER, from_account_id = Some 1,
           to_account_id = Some 2, amount = 2000, balance_after = Some 8000,
           description = None, is_flagged = False, flag_reason = None, timestamp = 0\<rparr>],
       audit_logs = [\<lparr>log_id = 1, log_user_id = 1, action = ''TRANSFER'',
           log_details = Some (Transfer_details 2000 ''1000000001'' ''1000000002''),
           log_timestamp = 0\<rparr>]\<rparr>)
   \<and> first_index (source_filter 1 (request ''1000000001'' ''1000000002'' 2000)) (accounts bank)
       = Some 0
   \<and> first_index (dest_filter (request ''1000000001'' ''1000000002'' 2000)) (accounts bank)
       = Some 1
   \<and> balance (accounts bank ! 0) = 10000 \<and> balance (accounts bank ! 1) = 1000
   \<and> balance (accounts bank ! 0) \<in> \<int> \<and> balance (accounts bank ! 1) \<in> \<int>
   \<and> req_amount (request ''1000000001'' ''1000000002'' 2000) \<in> \<int>
   \<and> balance (accounts bank ! 0) < 2 ^ 53
   \<and> \<bar>balance (accounts bank ! 1) + req_amount (request ''1000000001'' ''1000000002'' 2000)\<bar>
       < 2 ^ 53
   \<and> fl (10000 - 2000) = 8000 \<and> fl (1000 + 2000) = 3000
   \<and> (8000 :: real) + 3000 = 10000 + 1000"
proof -
  have i: "first_index (source_filter 1 (request ''1000000001'' ''1000000002'' 2000))
             (accounts bank) = Some 0"
    "first_index (dest_filter (request ''1000000001'' ''1000000002'' 2000)) (accounts bank)
       = Some 1"
    by (simp_all add: source_filter_def dest_filter_def request_def bank_def acct_def)
  have v: "balance (accounts bank ! 0) = 10000" "balance (accounts bank ! 1) = 1000"
    "req_amount (request ''1000000001'' ''1000000002'' 2000) = 2000"
    by (simp_all add: bank_def acct_def request_def)
  from transfer_conservation_rounded [OF bank_transfer_2000]
  have "fl (10000 - 2000) = 8000 \<and> fl (1000 + 2000) = 3000"
    unfolding i v by (auto simp: acct_def)
  with bank_transfer_2000 i v show ?thesis by simp
qed

section \<open>Funds check and non-negative balances\<close>

text \<open>
  C2. For a request whose two accounts resolve, the endpoint answers
  \<open>400 Insufficient funds\<close> exactly when the balance of the source is below the amount;
  in that case the database is left as it was. Hence the funds check does not fail when
  the balance covers the amount, and balances that were non-negative before the request
  are non-negative after it.
\<close>

theorem transfer_insufficient_funds:
  assumes "resolves uid req db i j"
  shows "(fst (transfer now uid req db) = Inl (HTTPException 400 ''Insufficient funds'')
            \<longleftrightarrow> balance (accounts db ! i) < req_amount req)
       \<and> (balance (accounts db ! i) < req_amount req \<longrightarrow> snd (transfer now uid req db) = db)
       \<and> ((\<forall>a \<in> set (accounts db). 0 \<le> balance a)
            \<longrightarrow> (\<forall>a \<in> set (accounts (snd (transfer now uid req db))). 0 \<le> balance a))"
proof (cases "balance (accounts db ! i) < req_amount req")
  case True
  with assms have "transfer_commit now uid req db = (Inl (HTTPException 400 ''Insufficient funds''), db)"
    by (simp add: transfer_commit_def resolves_def)
  then have "transfer now uid req db = (Inl (HTTPException 400 ''Insufficient funds''), db)"
    by (simp add: transfer_def)
  with True show ?thesis by simp
next
  case False
  then have f: "req_amount req \<le> balance (accounts db ! i)" by simp
  have pos: "0 < req_amount req" using assms by (simp add: resolves_def)
  note b = resolves_bounds [OF assms]
  from transfer_commit_ok [OF assms f, of now]
  have "\<exists>t. fst (transfer now uid req db) = Inr t"
    and acc: "accounts (snd (transfer now uid req db))
               = execute_transfer i j (req_amount req) (accounts db)"
    by (simp_all add: transfer_def Let_def create_audit_log_def)
  then have "fst (transfer now uid req db) \<noteq> Inl (HTTPException 400 ''Insufficient funds'')"
    by auto
  moreover have "(\<forall>a \<in> set (accounts db). 0 \<le> balance a)
            \<longrightarrow> (\<forall>a \<in> set (accounts (snd (transfer now uid req db))). 0 \<le> balance a)"
    unfolding acc using execute_transfer_nonneg [OF _ pos f] b by blast
  ultimately show ?thesis using False by simp
qed

lemma bank_resolves:
  "0 < amt \<Longrightarrow> resolves 1 (request ''1000000001'' ''1000000002'' amt) bank 0 1"
  by (simp add: eval_defs)

theorem transfer_insufficient_funds_witness:
  "resolves 1 (request ''1000000001'' ''1000000002'' 50000) bank 0 1
   \<and> balance (accounts bank ! 0) < req_amount (request ''1000000001'' ''1000000002'' 50000)
   \<and> fst (transfer 0 1 (request ''1000000001'' ''1000000002'' 50000) bank)
       = Inl (HTTPException 400 ''Insufficient funds'')
   \<and> snd (transfer 0 1 (request ''1000000001'' ''1000000002'' 50000) bank) = bank
   \<and> list_all (\<lambda>a. 0 \<le> balance a) (accounts bank)
   \<and> list_all (\<lambda>a. 0 \<le> balance a)
        (accounts (snd (transfer 0 1 (request ''1000000001'' ''1000000002'' 50000) bank)))"
proof -
  have r: "resolves 1 (request ''1000000001'' ''1000000002'' 50000) bank 0 1"
    by (rule bank_resolves) simp
  have b: "balance (accounts bank ! 0) < req_amount (request ''1000000001'' ''1000000002'' 50000)"
    by (simp add: bank_def request_def acct_def)
  have n: "\<forall>a \<in> set (accounts bank). 0 \<le> balance a"
    by (simp add: bank_def acct_def)
  show ?thesis
    using transfer_insufficient_funds [OF r, of 0] r b n by (simp add: list_all_iff)
qed

text \<open>
  Without a destination that resolves the error is the one of the destination lookup,
  which the endpoint makes first; an underfunded request fails all the same and changes
  nothing.
\<close>

lemma transfer_underfunded_fails:
  assumes "first_index (source_filter uid req) (accounts db) = Some i"
    and "balance (accounts db ! i) < req_amount req"
  shows "\<exists>e. transfer now uid req db = (Inl e, db)"
  using assms
  by (auto simp: transfer_def transfer_commit_def split: option.splits)

section \<open>Flag and record\<close>



lemma bank_large_transfer:
  "transfer 0 1 (request ''1000000001'' ''1000000002'' 150000) bank_large =
     (Inr \<lparr>txn_id = 1, transaction_type = TRANSFER, from_account_id = Some 1,
           to_account_id = Some 2, amount = 150000, balance_after = Some 50000,
           description = None, is_flagged = True,
           flag_reason = Some (Exceeds_daily_limit 100000), timestamp = 0\<rparr>,
      \<lparr>accounts = [acct 1 ''1000000001'' 1 50000 True 100000,
                   acct 2 ''1000000002'' 2 151000 True 100000],
       transactions = [\<lparr>txn_id = 1, transaction_type = TRANSFER, from_account_id = Some 1,
           to_account_id = Some 2, amount = 150000, balance_after = Some 50000,
           description = None, is_flagged = True,
           flag_reason = Some (Exceeds_daily_limit 100000), timestamp = 0\<rparr>],
       audit_logs = [\<lparr>log_id = 1, log_user_id = 1, action = ''TRANSFER'',
           log_details = Some (Transfer_details 150000 ''1000000001'' ''1000000002''),
           log_timestamp = 0\<rparr>]\<rparr>)"
  by (simp add: eval_defs bank_large_def)


section \<open>Errors of the source lookup\<close>

text \<open>
  C7, as stated: a missing account number, a deactivated account and an account of
  another owner are reported as three distinct errors. On the code the three requests
  below (an unknown number, the deactivated account of the actor, an account of another
  user) get one and the same answer.
\<close>

theorem source_resolution_errors_counterexample:
  "transfer 0 1 (request ''9999999999'' ''1000000002'' 100) bank
     = (Inl (HTTPException 404 ''Source account not found or inactive''), bank)
   \<and> transfer 0 1 (request ''1000000003'' ''1000000002'' 100) bank
     = (Inl (HTTPException 404 ''Source account not found or inactive''), bank)
   \<and> transfer 0 1 (request ''1000000002'' ''1000000001'' 100) bank
     = (Inl (HTTPException 404 ''Source account not found or inactive''), bank)"
  by (simp add: eval_defs)

text \<open>
  C7, amended. When the account number of the source does not exist, or exists only for
  another owner, or names a deactivated account of the actor, the endpoint raises the
  single error \<open>404 Source account not found or inactive\<close>, and the database is left
  as it was.
\<close>

theorem source_resolution_error:
  assumes "0 < req_amount req"
    and "(\<forall>a \<in> set (accounts db). account_number a \<noteq> from_account_number req)
       \<or> (\<forall>a \<in> set (accounts db).
             account_number a = from_account_number req \<longrightarrow> acc_user_id a \<noteq> uid)
       \<or> (\<exists>i. first_index (source_filter uid req) (accounts db) = Some i
               \<and> \<not> is_active (accounts db ! i))"
  shows "transfer now uid req db
           = (Inl (HTTPException 404 ''Source account not found or inactive''), db)"
proof -
  from assms(2) have "first_index (source_filter uid req) (accounts db) = None
       \<or> (\<exists>i. first_index (source_filter uid req) (accounts db) = Some i
               \<and> \<not> is_active (accounts db ! i))"
    by (auto simp: first_index_None source_filter_def)
  with assms(1) have "transfer_commit now uid req db
           = (Inl (HTTPException 404 ''Source account not found or inactive''), db)"
    by (auto simp: transfer_commit_def)
  then show ?thesis by (simp add: transfer_def)
qed

theorem source_resolution_error_witness:
  "0 < req_amount (request ''1000000003'' ''1000000002'' 100)
   \<and> first_index (source_filter 1 (request ''1000000003'' ''1000000002'' 100)) (accounts bank) = Some 2
   \<and> \<not> is_active (accounts bank ! 2)
   \<and> transfer 0 1 (request ''1000000003'' ''1000000002'' 100) bank
       = (Inl (HTTPException 404 ''Source account not found or inactive''), bank)"
proof -
  have p: "0 < req_amount (request ''1000000003'' ''1000000002'' 100)"
    by (simp add: request_def)
  have f: "first_index (source_filter 1 (request ''1000000003'' ''1000000002'' 100)) (accounts bank) = Some 2"
    by (simp add: eval_defs)
  have a: "\<not> is_active (accounts bank ! 2)"
    by (simp add: bank_def acct_def)
  from f a have d: "\<exists>i. first_index (source_filter 1 (request ''1000000003'' ''1000000002'' 100))
                     (accounts bank) = Some i \<and> \<not> is_active (accounts bank ! i)"
    by blast
  show ?thesis
    using source_resolution_error [of "request ''1000000003'' ''1000000002'' 100" bank 1 0] p f a d
    by blast
qed

section \<open>Transfer of an account to itself\<close>

lemma first_index_exists:
  "x \<in> set xs \<Longrightarrow> P x \<Longrightarrow> \<exists>j. first_index P xs = Some j"
  using first_index_None [of P xs] by (cases "first_index P xs") auto

lemma first_index_unique_key:
  assumes "distinct (map f xs)" and "first_index P xs = Some i" and "f (xs ! i) = n"
  shows "first_index (\<lambda>a. f a = n) xs = Some i"
proof -
  from first_index_Some [OF assms(2)] have i: "i < length xs" by simp
  then have "xs ! i \<in> set xs" by simp
  from first_index_exists [OF this, of "\<lambda>a. f a = n"] assms(3)
  obtain j where j: "first_index (\<lambda>a. f a = n) xs = Some j" by blast
  from first_index_Some [OF j] have "j < length xs" "f (xs ! j) = n" by simp_all
  with i assms(3) have "map f xs ! i = map f xs ! j" "i < length (map f xs)" "j < length (map f xs)"
    by simp_all
  with nth_eq_iff_index_eq [OF assms(1), of i j] have "i = j" by blast
  with j show ?thesis by simp
qed

lemma bank_single_resolves:
  "resolves 1 (request ''1000000001'' ''1000000001'' (fl (14 / 100))) bank_single 0 0"
  using fl_14 by (simp add: resolves_def request_def bank_single_def acct_def source_filter_def
      dest_filter_def)

lemma bank_single_funded:
  "req_amount (request ''1000000001'' ''1000000001'' (fl (14 / 100)))
     \<le> balance (accounts bank_single ! 0)"
proof -
  have "fl (14 / 100) \<le> fl (12 / 10)" unfolding fl_14 fl_12 by simp
  then show ?thesis by (simp add: request_def bank_single_def acct_def)
qed

lemma bank_single_check_fraud:
  "check_fraud 0 (fl (14 / 100)) (accounts bank_single ! 0) bank_single = (False, Empty_reason)"
  using fl_14 by (simp add: check_fraud_def recent_large_def bank_single_def acct_def)

lemma bank_single_execute_transfer:
  "execute_transfer 0 0 (fl (14 / 100)) (accounts bank_single)
     = [acct 1 ''1000000001'' 1 (1351079888211149 / 2 ^ 50) True 100000]"
proof -
  have "execute_transfer 0 0 (fl (14 / 100)) (accounts bank_single)
     = [acct 1 ''1000000001'' 1 (fl (fl (fl (12 / 10) - fl (14 / 100)) + fl (14 / 100))) True
          100000]"
    by (simp add: execute_transfer_def bank_single_def acct_def)
  then show ?thesis by (simp only: fl_credit_14)
qed

text \<open>
  C10, as stated: a transfer of an account to itself leaves the balance of the account
  unchanged. On the code the debit and the credit are two rounded operations on the one
  row: the transfer of \<open>0.14\<close> of an account holding \<open>1.2\<close> to itself succeeds and
  leaves the next double above \<open>1.2\<close>, which is also the recorded \<open>balance_after\<close>.
\<close>

theorem self_transfer_unchanged_counterexample:
  "transfer 0 1 (request ''1000000001'' ''1000000001'' (fl (14 / 100))) bank_single =
     (Inr \<lparr>txn_id = 1, transaction_type = TRANSFER, from_account_id = Some 1,
           to_account_id = Some 1, amount = fl (14 / 100),
           balance_after = Some (1351079888211149 / 2 ^ 50),
           description = None, is_flagged = False, flag_reason = None, timestamp = 0\<rparr>,
      \<lparr>accounts = [acct 1 ''1000000001'' 1 (1351079888211149 / 2 ^ 50) True 100000],
       transactions = [\<lparr>txn_id = 1, transaction_type = TRANSFER, from_account_id = Some 1,
           to_account_id = Some 1, amount = fl (14 / 100),
           balance_after = Some (1351079888211149 / 2 ^ 50),
           description = None, is_flagged = False, flag_reason = None, timestamp = 0\<rparr>],
       audit_logs = [\<lparr>log_id = 1, log_user_id = 1, action = ''TRANSFER'',
           log_details = Some (Transfer_details (fl (14 / 100)) ''1000000001'' ''1000000001''),
           log_timestamp = 0\<rparr>]\<rparr>)
   \<and> balance (accounts bank_single ! 0) = 5404319552844595 / 2 ^ 52
   \<and> (1351079888211149 / 2 ^ 50 :: real) \<noteq> 5404319552844595 / 2 ^ 52"
proof -
  have a: "req_amount (request ''1000000001'' ''1000000001'' (fl (14 / 100))) = fl (14 / 100)"
    by (simp add: request_def)
  note transfer_ok [OF bank_single_resolves bank_single_funded, of 0,
      unfolded a bank_single_execute_transfer bank_single_check_fraud Let_def]
  then have t: "transfer 0 1 (request ''1000000001'' ''1000000001'' (fl (14 / 100))) bank_single =
     (Inr \<lparr>txn_id = 1, transaction_type = TRANSFER, from_account_id = Some 1,
           to_account_id = Some 1, amount = fl (14 / 100),
           balance_after = Some (1351079888211149 / 2 ^ 50),
           description = None, is_flagged = False, flag_reason = None, timestamp = 0\<rparr>,
      \<lparr>accounts = [acct 1 ''1000000001'' 1 (1351079888211149 / 2 ^ 50) True 100000],
       transactions = [\<lparr>txn_id = 1, transaction_type = TRANSFER, from_account_id = Some 1,
           to_account_id = Some 1, amount = fl (14 / 100),
           balance_after = Some (1351079888211149 / 2 ^ 50),
           description = None, is_flagged = False, flag_reason = None, timestamp = 0\<rparr>],
       audit_logs = [\<lparr>log_id = 1, log_user_id = 1, action = ''TRANSFER'',
           log_details = Some (Transfer_details (fl (14 / 100)) ''1000000001'' ''1000000001''),
           log_timestamp = 0\<rparr>]\<rparr>)"
    by (simp add: new_transaction_def create_audit_log_def next_id_def request_def
        bank_single_def acct_def)
  have "balance (accounts bank_single ! 0) = fl (12 / 10)"
    by (simp add: bank_single_def acct_def)
  then have b: "balance (accounts bank_single ! 0) = 5404319552844595 / 2 ^ 52"
    by (simp only: fl_12)
  have e: "(1351079888211149 / 2 ^ 50 :: real) \<noteq> 5404319552844595 / 2 ^ 52"
    by simp
  from t b e show ?thesis by (intro conjI)
qed

text \<open>
  C10, amended. With unique account numbers (the \<open>unique=True\<close> of the column), a
  request whose source and destination numbers are equal, on an active account of the
  actor with a balance that covers the positive amount, succeeds. The one row is debited
  and then credited, each operation rounding to the nearest double; the result is the
  new balance of the account and the \<open>balance_after\<close> of the recorded transaction, which
  has this account as source and as destination. When the balance and the amount are
  whole numbers and the balance is below \<open>2 ^ 53\<close>, the accounts table is unchanged.
\<close>

theorem self_transfer_rounded:
  assumes "0 < req_amount req"
    and "to_account_number req = from_account_number req"
    and "distinct (map account_number (accounts db))"
    and "first_index (source_filter uid req) (accounts db) = Some i"
    and "is_active (accounts db ! i)"
    and "req_amount req \<le> balance (accounts db ! i)"
  shows "\<exists>t. fst (transfer now uid req db) = Inr t
          \<and> accounts (snd (transfer now uid req db))
              = (accounts db)[i := (accounts db ! i)
                   \<lparr>balance := fl (fl (balance (accounts db ! i) - req_amount req)
                                     + req_amount req)\<rparr>]
          \<and> transactions (snd (transfer now uid req db)) = transactions db @ [t]
          \<and> from_account_id t = Some (acc_id (accounts db ! i))
          \<and> to_account_id t = Some (acc_id (accounts db ! i))
          \<and> amount t = req_amount req
          \<and> balance_after t
              = Some (fl (fl (balance (accounts db ! i) - req_amount req) + req_amount req))
          \<and> (balance (accounts db ! i) \<in> \<int> \<and> req_amount req \<in> \<int>
               \<and> balance (accounts db ! i) < 2 ^ 53
              \<longrightarrow> accounts (snd (transfer now uid req db)) = accounts db
                  \<and> balance_after t = Some (balance (accounts db ! i)))"
proof -
  from first_index_Some [OF assms(4)]
  have i: "i < length (accounts db)"
    and n: "account_number (accounts db ! i) = to_account_number req"
    by (simp_all add: source_filter_def assms(2))
  from first_index_unique_key [OF assms(3,4) n]
  have "first_index (dest_filter req) (accounts db) = Some i"
    by (simp add: dest_filter_def [abs_def])
  with assms have r: "resolves uid req db i i" by (simp add: resolves_def)
  have w: "fl (fl (balance (accounts db ! i) - req_amount req) + req_amount req)
             = balance (accounts db ! i)"
    if "balance (accounts db ! i) \<in> \<int>" "req_amount req \<in> \<int>"
      "balance (accounts db ! i) < 2 ^ 53"
    using that assms(1,6) by (intro fl_debit_credit_whole)
  from transfer_ok [OF r assms(6), of now] i w
  show ?thesis
    by (auto simp: Let_def create_audit_log_def new_transaction_def execute_transfer_self
        list_update_same_conv)
qed

theorem self_transfer_rounded_witness:
  "0 < req_amount (request ''1000000001'' ''1000000001'' 2000)
   \<and> to_account_number (request ''1000000001'' ''1000000001'' 2000)
       = from_account_number (request ''1000000001'' ''1000000001'' 2000)
   \<and> distinct (map account_number (accounts bank))
   \<and> first_index (source_filter 1 (request ''1000000001'' ''1000000001'' 2000)) (accounts bank) = Some 0
   \<and> is_active (accounts bank ! 0)
   \<and> req_amount (request ''1000000001'' ''1000000001'' 2000) \<le> balance (accounts bank ! 0)
   \<and> balance (accounts bank ! 0) \<in> \<int>
   \<and> req_amount (request ''1000000001'' ''1000000001'' 2000) \<in> \<int>
   \<and> balance (accounts bank ! 0) < 2 ^ 53
   \<and> fl (fl (10000 - 2000) + 2000) = 10000
   \<and> (\<exists>t. fst (transfer 0 1 (request ''1000000001'' ''1000000001'' 2000) bank) = Inr t
          \<and> accounts (snd (transfer 0 1 (request ''1000000001'' ''1000000001'' 2000) bank))
              = accounts bank
          \<and> transactions (snd (transfer 0 1 (request ''1000000001'' ''1000000001'' 2000) bank))
              = [t]
          \<and> from_account_id t = Some 1 \<and> to_account_id t = Some 1
          \<and> amount t = 2000 \<and> balance_after t = Some 10000)"
proof -
  have h: "0 < req_amount (request ''1000000001'' ''1000000001'' 2000)"
    "to_account_number (request ''1000000001'' ''1000000001'' 2000)
       = from_account_number (request ''1000000001'' ''1000000001'' 2000)"
    "distinct (map account_number (accounts bank))"
    "first_index (source_filter 1 (request ''1000000001'' ''1000000001'' 2000)) (accounts bank) = Some 0"
    "is_active (accounts bank ! 0)"
    "req_amount (request ''1000000001'' ''1000000001'' 2000) \<le> balance (accounts bank ! 0)"
    by (simp_all add: eval_defs)
  have v: "acc_id (accounts bank ! 0) = 1" "balance (accounts bank ! 0) = 10000"
    "req_amount (request ''1000000001'' ''1000000001'' 2000) = 2000"
    "transactions bank = []"
    by (simp_all add: bank_def acct_def request_def)
  from self_transfer_rounded [OF h, of 0]
  show ?thesis using h unfolding v by auto
qed

section \<open>Commits of a transfer\<close>

text \<open>
  C6, as stated: balances, transaction row and audit row become visible as one unit.
  On the code the first committed state of a successful transfer shows the balances
  and the transaction row and no audit row.
\<close>

theorem transfer_atomic_unit_counterexample:
  "\<not> list_all (all_or_nothing bank)
       (commit_points 0 1 (request ''1000000001'' ''1000000002'' 2000) bank)"
  by (simp add: commit_points_def all_or_nothing_def eval_defs)

text \<open>
  C6, amended. A successful transfer commits twice. The first commit makes the two
  balances and the transaction row visible together, with the audit table as before;
  the second commit, made by \<open>create_audit_log\<close>, adds exactly one audit row of action
  \<open>TRANSFER\<close> for the actor. The final state of the endpoint is the second commit.
\<close>

theorem transfer_two_commits:
  assumes "resolves uid req db i j" and "req_amount req \<le> balance (accounts db ! i)"
  shows "\<exists>t.
           fst (transfer now uid req db) = Inr t
         \<and> commit_points now uid req db =
             [db\<lparr>accounts := execute_transfer i j (req_amount req) (accounts db),
                 transactions := transactions db @ [t]\<rparr>,
              db\<lparr>accounts := execute_transfer i j (req_amount req) (accounts db),
                 transactions := transactions db @ [t],
                 audit_logs := audit_logs db @
                   [\<lparr>log_id = next_id (map log_id (audit_logs db)), log_user_id = uid,
                     action = ''TRANSFER'',
                     log_details = Some (Transfer_details (req_amount req)
                                           (from_account_number req) (to_account_number req)),
                     log_timestamp = now\<rparr>]\<rparr>]
         \<and> snd (transfer now uid req db) = last (commit_points now uid req db)"
  using transfer_commit_ok [OF assms, of now]
  by (simp add: commit_points_def transfer_def Let_def create_audit_log_def)

theorem transfer_two_commits_witness:
  "resolves 1 (request ''1000000001'' ''1000000002'' 2000) bank 0 1
   \<and> req_amount (request ''1000000001'' ''1000000002'' 2000) \<le> balance (accounts bank ! 0)
   \<and> length (commit_points 0 1 (request ''1000000001'' ''1000000002'' 2000) bank) = 2
   \<and> audit_logs (commit_points 0 1 (request ''1000000001'' ''1000000002'' 2000) bank ! 0) = []
   \<and> length (audit_logs (commit_points 0 1 (request ''1000000001'' ''1000000002'' 2000) bank ! 1)) = 1"
proof -
  have r: "resolves 1 (request ''1000000001'' ''1000000002'' 2000) bank 0 1"
    by (rule bank_resolves) simp
  have b: "req_amount (request ''1000000001'' ''1000000002'' 2000) \<le> balance (accounts bank ! 0)"
    by (simp add: bank_def request_def acct_def)
  have a: "audit_logs bank = []" by (simp add: bank_def)
  from transfer_two_commits [OF r b, of 0]
  show ?thesis using r b a by auto
qed

section \<open>Order of the fraud rules\<close>

lemma large_in_last_hour_eq: "large_in_last_hour now account db = recent_large now account db"
  unfolding large_in_last_hour_def recent_large_def Let_def
  by (rule arg_cong [where f = length], rule filter_cong) auto

text \<open>
  C4. \<open>check_fraud\<close> answers the reason of the first of the three rules, taken in the
  order daily limit, large transactions of the last hour, large share of the balance,
  whose condition holds, and the unflagged verdict when none holds. It is a function of
  the clock reading, the amount, the account and the stored transactions only, so equal
  inputs give equal verdicts. \<open>check_fraud_ml\<close> evaluates the first two rules in the same
  order, whatever the state of the detector, before it asks the scorer.
\<close>

theorem check_fraud_rule_order:
  "check_fraud now amt account db =
     (case rule_engine (rules now amt account db) of
        Some r \<Rightarrow> (True, r)
      | None \<Rightarrow> (False, Empty_reason))
   \<and> check_fraud_ml sk rng now amt account db det =
     (case rule_engine (take 2 (rules now amt account db)) of
        Some r \<Rightarrow> ((True, r), det)
      | None \<Rightarrow> (scorer_verdict (fst (predict sk rng now amt account db det)),
                 snd (predict sk rng now amt account db det)))"
proof
  show "check_fraud now amt account db =
     (case rule_engine (rules now amt account db) of
        Some r \<Rightarrow> (True, r)
      | None \<Rightarrow> (False, Empty_reason))"
    by (simp add: check_fraud_def rule_engine_def rules_def large_in_last_hour_eq mult.commute)
next
  show "check_fraud_ml sk rng now amt account db det =
     (case rule_engine (take 2 (rules now amt account db)) of
        Some r \<Rightarrow> ((True, r), det)
      | None \<Rightarrow> (scorer_verdict (fst (predict sk rng now amt account db det)),
                 snd (predict sk rng now amt account db det)))"
    by (simp add: check_fraud_ml_def rule_engine_def rules_def large_in_last_hour_eq
        scorer_verdict_def split: prod.splits sum.splits)
qed

section \<open>Failure of the scorer\<close>













section \<open>Lazy training of the scorer\<close>

lemma account_rows_ok:
  "daily_limit a \<noteq> 0 \<Longrightarrow> account_rows a ts = Inr (map (row_values a) ts)"
  by (induction ts) (simp_all add: training_row_def)

lemma training_data_ok:
  "\<forall>a \<in> set accs. daily_limit a \<noteq> 0 \<Longrightarrow>
   training_data accs db
     = Inr (concat (map (\<lambda>a. map (row_values a) (account_transactions a db)) accs))"
  by (induction accs) (simp_all add: account_rows_ok)

lemma hour_timedelta_hours: "hour (timedelta_hours k) = k mod 24"
  by (simp add: hour_def timedelta_hours_def)

lemma weekday_timedelta_hours: "weekday (timedelta_hours k) = (k div 24 + 3) mod 7"
proof -
  have "k * 3600000000 div 86400000000 = k * 3600000000 div (24 * 3600000000)" by simp
  also have "\<dots> = k div 24" by (simp only: div_mult_mult2)
  finally show ?thesis by (simp add: weekday_def timedelta_hours_def)
qed

lemma fl_history_ratio:
  assumes "k < 100" and "j \<le> 1074"
  shows "fl (real (Suc k) / 2 ^ j) = real (Suc k) / 2 ^ j"
proof -
  have "\<bar>int (Suc k)\<bar> < 2 ^ 53" using assms(1) by simp
  from fl_dyadic [OF this assms(2)] show ?thesis by simp
qed

text \<open>The rows that training gathers from a history of 101 transfers of the first account.\<close>

lemma bank_history_rows:
  "concat (map (\<lambda>a. map (\<lambda>t. [amount t,
                               if balance a > 0 then fl (amount t / balance a) else 0,
                               amount t, 1,
                               real_of_int (timestamp t div 3600000000 mod 24),
                               real_of_int ((timestamp t div 86400000000 + 3) mod 7),
                               fl (amount t / daily_limit a)])
                     (take 100 (filter (\<lambda>t. from_account_id t = Some (acc_id a))
                                  (transactions (bank_history 101)))))
             (accounts (bank_history 101)))
     = history_rows 100"
proof -
  have r: "fl (real (Suc k) / 1024) = real (Suc k) / 1024"
    "fl (real (Suc k) / 4096) = real (Suc k) / 4096" if "k < 100" for k
    using fl_history_ratio [OF that, of 10] fl_history_ratio [OF that, of 12] by simp_all
  have h: "timedelta_hours (int k) div 3600000000 mod 24 = int k mod 24"
    "(timedelta_hours (int k) div 86400000000 + 3) mod 7 = (int k div 24 + 3) mod 7" for k
    by (rule hour_timedelta_hours [unfolded hour_def],
        rule weekday_timedelta_hours [unfolded weekday_def])
  show ?thesis
    unfolding bank_history_def
    by (simp add: acct_def history_def history_rows_def filter_map comp_def take_map r h
        del: of_nat_Suc cong: map_cong)
qed

text \<open>
  C8, as stated: training runs on the most recent transactions of every account, and
  \<open>predict\<close> produces a score for every database state, also one without accounts. On
  the code, training on a database without accounts returns before it fits the forest
  and without the synthetic batch, and \<open>predict\<close> then raises on the forest that was
  never fitted. And the query of the transactions of an account has a limit and no
  ordering: of 101 transfers of one account, inserted in the order of their timestamps
  with the amounts 1 to 101, the forest is fitted on the rows of the amounts 1 to 100,
  the oldest hundred, and not on the row of the most recent transfer.
\<close>

theorem lazy_training_counterexample:
  "train_on_historical_data rng_const empty_db fraud_detector = (Inr (), fraud_detector)
   \<and> predict sk_normal rng_const 0 2000 (acct 1 ''1000000001'' 1 10000 True 100000) empty_db
       fraud_detector = (Inl NotFittedError, fraud_detector)
   \<and> length (transactions (bank_history 101)) = 101
   \<and> sorted_wrt (<) (map timestamp (transactions (bank_history 101)))
   \<and> map amount (transactions (bank_history 101)) = map real [1..<102]
   \<and> train_on_historical_data rng_const (bank_history 101) fraud_detector
       = (Inr (), \<lparr>fitted = Some (history_rows 100), is_trained = True\<rparr>)
   \<and> map hd (history_rows 100) = map real [1..<101]"
proof -
  have e: "train_on_historical_data rng_const empty_db fraud_detector = (Inr (), fraud_detector)"
    by (simp add: train_on_historical_data_def empty_db_def)
  have p: "predict sk_normal rng_const 0 2000 (acct 1 ''1000000001'' 1 10000 True 100000)
       empty_db fraud_detector = (Inl NotFittedError, fraud_detector)"
    by (simp add: predict_def train_on_historical_data_def fraud_detector_def empty_db_def
        acct_def extract_features_def Let_def)
  have l: "length (transactions (bank_history 101)) = 101"
    by (simp add: bank_history_def history_def)
  have s: "sorted_wrt (<) (map timestamp (transactions (bank_history 101)))"
    by (simp add: bank_history_def history_def sorted_wrt_iff_nth_less timedelta_hours_def)
  have "map amount (transactions (bank_history 101)) = map (real \<circ> Suc) [0..<101]"
    by (simp add: bank_history_def history_def comp_def)
  also have "\<dots> = map real (map Suc [0..<101])" by simp
  also have "\<dots> = map real [1..<102]" by (simp only: map_Suc_upt) simp
  finally have a: "map amount (transactions (bank_history 101)) = map real [1..<102]" .
  have n: "length (history_rows 100) = 100" by (simp add: history_rows_def)
  have "training_data (accounts (bank_history 101)) (bank_history 101)
          = Inr (concat (map (\<lambda>a. map (row_values a) (account_transactions a (bank_history 101)))
                   (accounts (bank_history 101))))"
    by (rule training_data_ok) (simp add: bank_history_def acct_def)
  also have "\<dots> = Inr (history_rows 100)"
    using bank_history_rows
    by (simp add: row_values_def [abs_def] account_transactions_def hour_def weekday_def)
  finally have d: "training_data (accounts (bank_history 101)) (bank_history 101)
          = Inr (history_rows 100)" .
  have t: "train_on_historical_data rng_const (bank_history 101) fraud_detector
       = (Inr (), \<lparr>fitted = Some (history_rows 100), is_trained = True\<rparr>)"
    unfolding train_on_historical_data_def d
    by (simp add: n fraud_detector_def) (simp add: bank_history_def)
  have "map hd (history_rows 100) = map (real \<circ> Suc) [0..<100]"
    by (simp add: history_rows_def comp_def)
  also have "\<dots> = map real (map Suc [0..<100])" by simp
  also have "\<dots> = map real [1..<101]" by (simp only: map_Suc_upt) simp
  finally have h: "map hd (history_rows 100) = map real [1..<101]" .
  from e p l s a t h show ?thesis by (intro conjI)
qed

text \<open>
  C8, amended. On first use, with at least one account in the database and no daily
  limit equal to zero, training gathers, for every account in table order, the feature
  rows of the first 100 transactions that the unordered query of its outgoing
  transactions returns (in table order, so the oldest ones), replaces the gathered rows
  by the batch of 100 synthetic rows when they are fewer than 10, and fits the forest on
  the result, so that \<open>predict\<close> answers with the prediction and the score of the fitted
  forest whenever the forest itself answers.
\<close>

theorem lazy_training:
  assumes "accounts db \<noteq> []"
    and "\<forall>a \<in> set (accounts db). daily_limit a \<noteq> 0"
    and "daily_limit account \<noteq> 0"
    and "\<not> is_trained det"
    and "forest_predict sk = (\<lambda>X f. Inr (p X f))"
    and "score_samples sk = (\<lambda>X f. Inr (s X f))"
  shows "\<exists>rows X f.
           rows = concat (map (\<lambda>a. map (\<lambda>t. [amount t,
                               if balance a > 0 then fl (amount t / balance a) else 0,
                               amount t, 1,
                               real_of_int (timestamp t div 3600000000 mod 24),
                               real_of_int ((timestamp t div 86400000000 + 3) mod 7),
                               fl (amount t / daily_limit a)])
                     (take 100 (filter (\<lambda>t. from_account_id t = Some (acc_id a))
                                  (transactions db))))
             (accounts db))
         \<and> X = (if length rows < 10 then map rng [0..<100] else rows)
         \<and> train_on_historical_data rng db det
             = (Inr (), det\<lparr>fitted := Some X, is_trained := True\<rparr>)
         \<and> extract_features now amt account db = Inr f
         \<and> predict sk rng now amt account db det
             = (Inr (p X f = - 1, ml_reason amt account (p X f = - 1) (s X f), s X f),
                det\<lparr>fitted := Some X, is_trained := True\<rparr>)"
proof -
  define rows where "rows = concat (map (\<lambda>a. map (\<lambda>t. [amount t,
                               if balance a > 0 then fl (amount t / balance a) else 0,
                               amount t, 1,
                               real_of_int (timestamp t div 3600000000 mod 24),
                               real_of_int ((timestamp t div 86400000000 + 3) mod 7),
                               fl (amount t / daily_limit a)])
                     (take 100 (filter (\<lambda>t. from_account_id t = Some (acc_id a))
                                  (transactions db))))
             (accounts db))"
  define X where "X = (if length rows < 10 then map rng [0..<100] else rows)"
  have "training_data (accounts db) db
          = Inr (concat (map (\<lambda>a. map (row_values a) (account_transactions a db)) (accounts db)))"
    using assms(2) by (rule training_data_ok)
  also have "\<dots> = Inr rows"
    by (simp add: rows_def row_values_def [abs_def] account_transactions_def hour_def
        weekday_def)
  finally have d: "training_data (accounts db) db = Inr rows" .
  have t: "train_on_historical_data rng db det
             = (Inr (), det\<lparr>fitted := Some X, is_trained := True\<rparr>)"
    using assms(1) by (simp add: train_on_historical_data_def d X_def generate_synthetic_data_def)
  obtain f where f: "extract_features now amt account db = Inr f"
    using assms(3) by (simp add: extract_features_def Let_def)
  have "predict sk rng now amt account db det
             = (Inr (p X f = - 1, ml_reason amt account (p X f = - 1) (s X f), s X f),
                det\<lparr>fitted := Some X, is_trained := True\<rparr>)"
    using assms(4,5,6) t f by (simp add: predict_def Let_def)
  with rows_def X_def t f show ?thesis by blast
qed

theorem lazy_training_witness:
  "accounts (bank_history 101) \<noteq> []
   \<and> list_all (\<lambda>a. daily_limit a \<noteq> 0) (accounts (bank_history 101))
   \<and> daily_limit (accounts (bank_history 101) ! 0) \<noteq> 0
   \<and> \<not> is_trained fraud_detector
   \<and> predict sk_normal rng_const 0 2000 (accounts (bank_history 101) ! 0) (bank_history 101)
       fraud_detector
       = (Inr (False, ML_normal (- (1 / 2)), - (1 / 2)),
          \<lparr>fitted = Some (history_rows 100), is_trained = True\<rparr>)
   \<and> length (history_rows 100) = 100
   \<and> history_rows 100 ! 0 = [1, 1 / 1024, 1, 1, 0, 3, 1 / 4096]
   \<and> history_rows 100 ! 99 = [100, 100 / 1024, 100, 1, 3, 0, 100 / 4096]
   \<and> accounts bank \<noteq> []
   \<and> list_all (\<lambda>a. daily_limit a \<noteq> 0) (accounts bank)
   \<and> daily_limit (accounts bank ! 0) \<noteq> 0
   \<and> predict sk_normal rng_const 0 2000 (accounts bank ! 0) bank fraud_detector
       = (Inr (False, ML_normal (- (1 / 2)), - (1 / 2)),
          \<lparr>fitted = Some (replicate 100 [5000, 1 / 8, 0, 1, 12, 3, 1 / 4]), is_trained = True\<rparr>)"
proof -
  have k: "forest_predict sk_normal = (\<lambda>X f. Inr 1)"
    "score_samples sk_normal = (\<lambda>X f. Inr (- (1 / 2)))"
    by (simp_all add: sk_normal_def)
  have u: "\<not> is_trained fraud_detector" by (simp add: fraud_detector_def)
  have a: "accounts (bank_history 101) \<noteq> []"
    "\<forall>a \<in> set (accounts (bank_history 101)). daily_limit a \<noteq> 0"
    "daily_limit (accounts (bank_history 101) ! 0) \<noteq> 0"
    by (simp_all add: bank_history_def acct_def)
  have b: "accounts bank \<noteq> []" "\<forall>a \<in> set (accounts bank). daily_limit a \<noteq> 0"
    "daily_limit (accounts bank ! 0) \<noteq> 0"
    by (simp_all add: bank_def acct_def)
  have n: "length (history_rows 100) = 100" by (simp add: history_rows_def)
  have r: "history_rows 100 ! 0 = [1, 1 / 1024, 1, 1, 0, 3, 1 / 4096]"
    "history_rows 100 ! 99 = [100, 100 / 1024, 100, 1, 3, 0, 100 / 4096]"
    by (simp_all add: history_rows_def)
  from lazy_training [OF a u k, of rng_const 0 2000]
  have h: "predict sk_normal rng_const 0 2000 (accounts (bank_history 101) ! 0)
       (bank_history 101) fraud_detector
       = (Inr (False, ML_normal (- (1 / 2)), - (1 / 2)),
          \<lparr>fitted = Some (history_rows 100), is_trained = True\<rparr>)"
    unfolding bank_history_rows by (auto simp: n ml_reason_def fraud_detector_def)
  have "concat (map (\<lambda>a. map (\<lambda>t. [amount t,
                               if balance a > 0 then fl (amount t / balance a) else 0,
                               amount t, 1,
                               real_of_int (timestamp t div 3600000000 mod 24),
                               real_of_int ((timestamp t div 86400000000 + 3) mod 7),
                               fl (amount t / daily_limit a)])
                     (take 100 (filter (\<lambda>t. from_account_id t = Some (acc_id a))
                                  (transactions bank))))
             (accounts bank)) = []"
    by (simp add: bank_def)
  with lazy_training [OF b u k, of rng_const 0 2000]
  have s: "predict sk_normal rng_const 0 2000 (accounts bank ! 0) bank fraud_detector
       = (Inr (False, ML_normal (- (1 / 2)), - (1 / 2)),
          \<lparr>fitted = Some (replicate 100 [5000, 1 / 8, 0, 1, 12, 3, 1 / 4]), is_trained = True\<rparr>)"
    by (auto simp: ml_reason_def fraud_detector_def rng_const_def [abs_def] map_replicate_const)
  from a u h n r b s show ?thesis by (simp add: list_all_iff)
qed


end
